theory Spec2Isabelle
  imports Complex_Main
begin

section \<open>Python values used by the badge generator\<close>

text \<open>
  Strings are \<^typ>\<open>string\<close>; the model covers ASCII text, where a character is a code
  point. Pixel measurements are Python floats; they are modelled as exact rationals.
\<close>

subsection \<open>Exceptions\<close>

text \<open>
  The \<open>Exception\<close> subclasses the library calls of the pipeline raise. \<open>IOError\<close> is what
  \<open>except IOError\<close> catches, \<open>ValueError\<close> what \<open>except ValueError\<close> catches, and
  \<open>except Exception\<close> catches every value of this type.
\<close>

datatype py_exn = IOError | ValueError | TypeError | IndexError | OtherError

definition exn_bind :: "py_exn + 'a \<Rightarrow> ('a \<Rightarrow> py_exn + 'b) \<Rightarrow> py_exn + 'b" where
  "exn_bind m f = (case m of Inl e \<Rightarrow> Inl e | Inr x \<Rightarrow> f x)"

definition raise_if :: "py_exn option \<Rightarrow> py_exn + unit" where
  "raise_if r = (case r of Some e \<Rightarrow> Inl e | None \<Rightarrow> Inr ())"

subsection \<open>str.split() and str.join\<close>

definition is_space :: "char \<Rightarrow> bool" where
  "is_space c = (c \<in> set [CHR 0x09, CHR 0x0A, CHR 0x0B, CHR 0x0C, CHR 0x0D,
                            CHR 0x1C, CHR 0x1D, CHR 0x1E, CHR 0x1F, CHR '' ''])"

text \<open>\<open>s.split()\<close>: the maximal runs of non-whitespace characters, in order.\<close>

fun split_acc :: "string \<Rightarrow> string \<Rightarrow> string list" where
  "split_acc cur [] = (if cur = [] then [] else [cur])"
| "split_acc cur (c # cs) =
     (if is_space c then (if cur = [] then split_acc [] cs else cur # split_acc [] cs)
      else split_acc (cur @ [c]) cs)"

definition py_split :: "string \<Rightarrow> string list" where
  "py_split s = split_acc [] s"

text \<open>\<open>" ".join(ws)\<close>.\<close>

fun join_sp :: "string list \<Rightarrow> string" where
  "join_sp [] = []"
| "join_sp [w] = w"
| "join_sp (w # v # vs) = w @ '' '' @ join_sp (v # vs)"

subsection \<open>int(str), str(int) and the format 03d\<close>

text \<open>
  The whitespace \<open>int\<close> skips around an ASCII string: the space and the characters 0x09 to
  0x0D. It is a smaller set than the one \<open>str.split\<close> splits at: the separators 0x1C to
  0x1F are not skipped.
\<close>

definition is_int_space :: "char \<Rightarrow> bool" where
  "is_int_space c = (c \<in> set [CHR 0x09, CHR 0x0A, CHR 0x0B, CHR 0x0C, CHR 0x0D, CHR '' ''])"

definition int_strip :: "string \<Rightarrow> string" where
  "int_strip s = rev (dropWhile is_int_space (rev (dropWhile is_int_space s)))"

definition is_digit :: "char \<Rightarrow> bool" where
  "is_digit c = (c \<in> set ''0123456789'')"

definition digit_val :: "char \<Rightarrow> nat" where
  "digit_val c = of_char c - 48"

text \<open>
  Decimal digits after the first one; a single underscore may stand between two digits.
\<close>

fun digits_us :: "nat \<Rightarrow> string \<Rightarrow> nat option" where
  "digits_us acc [] = Some acc"
| "digits_us acc (c # cs) =
     (if is_digit c then digits_us (10 * acc + digit_val c) cs
      else if c = CHR ''_'' then
        (case cs of
           [] \<Rightarrow> None
         | d # ds \<Rightarrow> if is_digit d then digits_us (10 * acc + digit_val d) ds else None)
      else None)"

definition parse_nat :: "string \<Rightarrow> nat option" where
  "parse_nat s = (case s of [] \<Rightarrow> None
                  | c # cs \<Rightarrow> if is_digit c then digits_us (digit_val c) cs else None)"

text \<open>
  The interpreter's default limit on conversions between integers and decimal text
  (\<open>sys.int_info.default_max_str_digits\<close>): more digits raise \<open>ValueError\<close>.
\<close>

definition max_str_digits :: nat where
  "max_str_digits = 4300"

text \<open>
  \<open>int(s)\<close> in base 10: the whitespace around is skipped, one sign is allowed, then digits
  with single underscores between them; anything else raises \<open>ValueError\<close>, and so does a
  text of more than \<open>max_str_digits\<close> digit characters (leading zeros count, underscores
  do not).
\<close>

definition py_int :: "string \<Rightarrow> py_exn + int" where
  "py_int s =
     (case int_strip s of
        [] \<Rightarrow> Inl ValueError
      | c # cs \<Rightarrow>
          (let body = (if c = CHR ''+'' \<or> c = CHR ''-'' then cs else c # cs)
           in case parse_nat body of
                None \<Rightarrow> Inl ValueError
              | Some n \<Rightarrow>
                  if max_str_digits < length (filter is_digit body) then Inl ValueError
                  else Inr (if c = CHR ''-'' then - int n else int n)))"

definition digit_char :: "nat \<Rightarrow> char" where
  "digit_char d = ''0123456789'' ! d"

fun str_nat :: "nat \<Rightarrow> string" where
  "str_nat n = (if n < 10 then [digit_char n] else str_nat (n div 10) @ [digit_char (n mod 10)])"

declare str_nat.simps [simp del]

text \<open>The decimal text of an integer, and \<open>str(i)\<close>, which raises beyond the digit limit.\<close>

definition str_int :: "int \<Rightarrow> string" where
  "str_int i = (if i < 0 then CHR ''-'' # str_nat (nat (- i)) else str_nat (nat i))"

definition py_str :: "int \<Rightarrow> py_exn + string" where
  "py_str i =
     (if max_str_digits < length (str_nat (nat \<bar>i\<bar>)) then Inl ValueError else Inr (str_int i))"

text \<open>
  The text of \<open>f"{i:03d}"\<close>: the sign, then zeros up to a total width of 3, then the digits.
  The width is a minimum: longer numbers are not cut. The format raises beyond the digit
  limit, as \<open>str\<close> does.
\<close>

definition fmt_03d :: "int \<Rightarrow> string" where
  "fmt_03d i =
     (let ds = str_nat (nat \<bar>i\<bar>); sg = (if i < 0 then ''-'' else '''')
      in sg @ replicate (3 - length sg - length ds) (CHR ''0'') @ ds)"

definition py_format_03d :: "int \<Rightarrow> py_exn + string" where
  "py_format_03d i =
     (if max_str_digits < length (str_nat (nat \<bar>i\<bar>)) then Inl ValueError else Inr (fmt_03d i))"

section \<open>The display id (badge\_generator.py, lines 234--246)\<close>

text \<open>
  \<open>quest_id\<close> is a string or an integer. \<open>hash\<close> is the interpreter's built-in string
  hash: a function fixed for the life of one process and salted anew when the interpreter
  starts, so two processes are two environments with different hashes.
\<close>

datatype quest_id = QInt int | QStr string

definition display_id :: "(string \<Rightarrow> int) \<Rightarrow> quest_id \<Rightarrow> py_exn + int" where
  "display_id hash q =
     (case q of
        QInt n \<Rightarrow> Inr n
      | QStr s \<Rightarrow>
          if CHR ''-'' \<in> set s then Inr (hash s mod 1000)
          else (case py_int s of
                  Inr n \<Rightarrow> Inr n
                | Inl e \<Rightarrow> if e = ValueError then Inr (hash s mod 1000) else Inl e))"

section \<open>Fonts, images and the drawing library\<close>

datatype font = Font (face: string) (fsize: nat)

text \<open>A text drawn on the card: position, string and font.\<close>

datatype text_op = Text (t_x: rat) (t_y: rat) (t_str: string) (t_font: font)

text \<open>The points pill: \<open>button_x\<close>, \<open>button_y\<close>, \<open>button_width\<close>, \<open>button_height\<close>, text.\<close>

datatype pill_op = Pill (pill_x: rat) (pill_y: rat) (pill_w: rat) (pill_h: rat) (pill_text: string)

record image =
  mode :: string
  isize :: "nat \<times> nat"
  pixels :: "nat list"

text \<open>An icon pasted on the card: the paste position and the pasted image.\<close>

datatype icon_op = Icon (icon_x: int) (icon_y: int) (icon_img: image)

text \<open>
  What the function reads from outside itself: the interpreter's string hash, the font
  files, Pillow's text measurement and drawing, \<open>textwrap.wrap\<close>, the image operations
  and the module's \<open>supabase_client\<close>. A call that can raise returns a sum (\<open>Inl\<close> the
  exception) or, when it has no result, \<open>Some\<close> of the exception.
\<close>

record env =
  hash :: "string \<Rightarrow> int"
  card_err :: "py_exn option"
  truetype :: "string \<Rightarrow> nat \<Rightarrow> py_exn option"
  textlength :: "font \<Rightarrow> string \<Rightarrow> py_exn + rat"
  getbbox :: "font \<Rightarrow> string \<Rightarrow> py_exn + (rat \<times> rat \<times> rat \<times> rat)"
  draw_text :: "rat \<times> rat \<Rightarrow> string \<Rightarrow> font \<Rightarrow> py_exn option"
  wrap :: "string \<Rightarrow> nat \<Rightarrow> string list"
  pill_err :: "rat \<Rightarrow> string \<Rightarrow> py_exn option"
  convert_pixels :: "string \<Rightarrow> image \<Rightarrow> py_exn + nat list"
  thumbnail :: "int \<times> int \<Rightarrow> image \<Rightarrow> py_exn + image"
  paste_err :: "image \<Rightarrow> int \<times> int \<Rightarrow> py_exn option"
  save_err :: "py_exn option"
  supabase_client :: "(string \<Rightarrow> py_exn option) option"
  icons_dir :: string
  path_exists :: "string \<Rightarrow> bool"
  image_open :: "string \<Rightarrow> py_exn + image"

record fonts =
  title_font :: font
  logo_font :: font
  header_font :: font
  body_font :: font
  small_font :: font
  points_font :: font

definition width :: rat where "width = 800"
definition height :: rat where "height = 500"

subsection \<open>Loading the fonts (lines 254--263)\<close>

definition load_font :: "env \<Rightarrow> string \<Rightarrow> nat \<Rightarrow> py_exn + font" where
  "load_font E path n = (case truetype E path n of Some e \<Rightarrow> Inl e | None \<Rightarrow> Inr (Font path n))"

text \<open>
  The six fonts in the order of the source. \<open>Inr None\<close> is the \<open>return None\<close> of the
  \<open>except IOError\<close> handler; any other exception leaves the inner \<open>try\<close>.
\<close>

definition load_fonts :: "env \<Rightarrow> py_exn + fonts option" where
  "load_fonts E =
     (case exn_bind (load_font E ''fonts/Montserrat-Bold.ttf'' 50) (\<lambda>tf.
           exn_bind (load_font E ''fonts/Montserrat-ExtraBold.ttf'' 65) (\<lambda>lf.
           exn_bind (load_font E ''fonts/Montserrat-Bold.ttf'' 32) (\<lambda>hf.
           exn_bind (load_font E ''fonts/Montserrat-Medium.ttf'' 26) (\<lambda>bf.
           exn_bind (load_font E ''fonts/Montserrat-Medium.ttf'' 24) (\<lambda>sf.
           exn_bind (load_font E ''fonts/Montserrat-Bold.ttf'' 80) (\<lambda>pf.
             Inr \<lparr>title_font = tf, logo_font = lf, header_font = hf,
                  body_font = bf, small_font = sf, points_font = pf\<rparr>)))))) of
        Inl e \<Rightarrow> if e = IOError then Inr None else Inl e
      | Inr F \<Rightarrow> Inr (Some F))"

subsection \<open>Drawing text\<close>

definition draw_at :: "env \<Rightarrow> rat \<Rightarrow> rat \<Rightarrow> string \<Rightarrow> font \<Rightarrow> py_exn + text_op" where
  "draw_at E x y s f =
     (case draw_text E (x, y) s f of Some e \<Rightarrow> Inl e | None \<Rightarrow> Inr (Text x y s f))"

text \<open>
  The loop \<open>for line in lines: draw.text((x, y), line); y += dy\<close>, which the source
  writes three times (title, description, action): the texts drawn and the final \<open>y\<close>.
\<close>

fun draw_lines ::
  "env \<Rightarrow> font \<Rightarrow> rat \<Rightarrow> rat \<Rightarrow> rat \<Rightarrow> string list \<Rightarrow> py_exn + (text_op list \<times> rat)" where
  "draw_lines E f x y dy [] = Inr ([], y)"
| "draw_lines E f x y dy (l # ls) =
     exn_bind (draw_at E x y l f) (\<lambda>t.
     exn_bind (draw_lines E f x (y + dy) dy ls) (\<lambda>(ts, y'). Inr (t # ts, y')))"

subsection \<open>The title (lines 274--309)\<close>

text \<open>
  The wrapping loop: \<open>lines\<close>, \<open>current_line\<close> and the words still to place; the result is
  \<open>lines\<close> after the final \<open>lines.append(current_line)\<close>.
\<close>

fun title_wrap ::
  "(string \<Rightarrow> py_exn + rat) \<Rightarrow> rat \<Rightarrow> string list \<Rightarrow> string \<Rightarrow> string list
     \<Rightarrow> py_exn + string list" where
  "title_wrap m mx lines current_line [] = Inr (lines @ [current_line])"
| "title_wrap m mx lines current_line (word # ws) =
     exn_bind (m (current_line @ '' '' @ word)) (\<lambda>len.
       if len \<le> mx then title_wrap m mx lines (current_line @ '' '' @ word) ws
       else title_wrap m mx (lines @ [current_line]) word ws)"

definition layout_title :: "env \<Rightarrow> font \<Rightarrow> string \<Rightarrow> py_exn + (text_op list \<times> rat)" where
  "layout_title E tf title =
     (let title_max_width = width - 300;
          title_words = take 3 (py_split title);
          title' = join_sp title_words
      in exn_bind (textlength E tf title') (\<lambda>len.
           if len > title_max_width then
             (case title_words of
                [] \<Rightarrow> Inl IndexError
              | w # ws \<Rightarrow>
                  exn_bind (title_wrap (textlength E tf) title_max_width [] w ws) (\<lambda>lines.
                  exn_bind (draw_lines E tf 40 160 (of_nat (fsize tf) - 5) (take 2 lines))
                    (\<lambda>(ts, y_pos). Inr (ts, y_pos + 40))))
           else exn_bind (draw_at E 40 160 title' tf) (\<lambda>t. Inr ([t], 230))))"

subsection \<open>The description (lines 314--324)\<close>

definition truncate_description :: "string \<Rightarrow> string" where
  "truncate_description description =
     (let desc_words = py_split description
      in if length desc_words > 10 then join_sp (take 10 desc_words) @ ''...''
         else description)"

definition layout_description ::
  "env \<Rightarrow> font \<Rightarrow> rat \<Rightarrow> string \<Rightarrow> py_exn + (text_op list \<times> rat)" where
  "layout_description E bf desc_y description =
     draw_lines E bf 40 desc_y 35 (wrap E (truncate_description description) 28)"

subsection \<open>The action row (lines 331--394)\<close>

definition bbox_height :: "env \<Rightarrow> font \<Rightarrow> string \<Rightarrow> py_exn + rat" where
  "bbox_height E f s = exn_bind (getbbox E f s) (\<lambda>(l, t, r, b). Inr (b - t))"

text \<open>\<open>(header_ascent - body_ascent) / 2\<close>, each ascent 0.75 of a bounding-box height.\<close>

definition y_offset :: "env \<Rightarrow> fonts \<Rightarrow> string \<Rightarrow> string \<Rightarrow> py_exn + rat" where
  "y_offset E F label val =
     exn_bind (bbox_height E (header_font F) label) (\<lambda>hh.
     exn_bind (bbox_height E (body_font F) val) (\<lambda>bh.
       Inr ((hh * (3 / 4) - bh * (3 / 4)) / 2)))"

text \<open>
  The wrapping loop of the action: \<open>wrapped_action\<close>, \<open>current_line\<close> and the words still
  to place. The \<open>break\<close> leaves the loop with \<open>current_line\<close> empty, so nothing more is
  appended after it.
\<close>

fun action_wrap ::
  "(string \<Rightarrow> py_exn + rat) \<Rightarrow> rat \<Rightarrow> string list \<Rightarrow> string \<Rightarrow> string list
     \<Rightarrow> py_exn + string list" where
  "action_wrap m mx wrapped current_line [] =
     Inr (if current_line \<noteq> [] then wrapped @ [current_line] else wrapped)"
| "action_wrap m mx wrapped current_line (word # ws) =
     (let test_line = (if current_line \<noteq> [] then current_line @ '' '' @ word else word)
      in exn_bind (m test_line) (\<lambda>len.
           if len \<le> mx then action_wrap m mx wrapped test_line ws
           else if current_line \<noteq> [] then action_wrap m mx (wrapped @ [current_line]) word ws
           else Inr (wrapped @ [take 10 word @ ''...''])))"

text \<open>The texts of the action value and \<open>deadline_y\<close>.\<close>

definition layout_action ::
  "env \<Rightarrow> font \<Rightarrow> string \<Rightarrow> rat \<Rightarrow> rat \<Rightarrow> rat \<Rightarrow> rat \<Rightarrow> py_exn + (text_op list \<times> rat)" where
  "layout_action E bf action action_x info_y action_y_offset max_action_width =
     exn_bind (textlength E bf action) (\<lambda>len.
       if len > max_action_width then
         exn_bind (action_wrap (textlength E bf) max_action_width [] [] (py_split action))
           (\<lambda>wrapped_action.
         exn_bind (draw_lines E bf action_x (info_y + action_y_offset)
                     (of_nat (fsize bf) * (4 / 5)) wrapped_action)
           (\<lambda>(ts, action_y). Inr (ts, action_y + 10)))
       else exn_bind (draw_at E action_x (info_y + action_y_offset) action bf)
              (\<lambda>t. Inr ([t], info_y + 40)))"

subsection \<open>The icon above the pill (lines 466--487)\<close>

text \<open>
  Image objects live in a store: a reference is an index, a new object is appended, an
  in-place operation updates its index. \<open>im.convert(m)\<close> returns a new image of mode \<open>m\<close>
  and the same size.
\<close>

definition py_convert :: "env \<Rightarrow> string \<Rightarrow> image \<Rightarrow> py_exn + image" where
  "py_convert E m im =
     exn_bind (convert_pixels E m im) (\<lambda>px. Inr \<lparr>mode = m, isize = isize im, pixels = px\<rparr>)"

text \<open>\<open>int(x)\<close> of a float: truncation towards zero.\<close>

definition py_trunc :: "rat \<Rightarrow> int" where
  "py_trunc q = (if 0 \<le> q then \<lfloor>q\<rfloor> else \<lceil>q\<rceil>)"

text \<open>
  The body of \<open>if icon_image:\<close> for the reference \<open>r\<close>. Every exception is caught by the
  inner handler, which only logs: the result is then no icon. The store is returned as the
  operations left it.
\<close>

definition place_icon ::
  "env \<Rightarrow> image list \<Rightarrow> rat \<Rightarrow> rat \<Rightarrow> rat \<Rightarrow> nat \<Rightarrow> icon_op option \<times> image list" where
  "place_icon E h button_width button_x button_y r =
     (let target_icon_size = py_trunc (button_width * (3 / 2))
      in case (if mode (h ! r) \<noteq> ''RGBA''
               then exn_bind (py_convert E ''RGBA'' (h ! r)) (\<lambda>im. Inr (length h, h @ [im]))
               else Inr (r, h)) of
           Inl e \<Rightarrow> (None, h)
         | Inr (icon_image, h1) \<Rightarrow>
             (let icon_resized = length h1; h2 = h1 @ [h1 ! icon_image]
              in case thumbnail E (target_icon_size, target_icon_size) (h2 ! icon_resized) of
                   Inl e \<Rightarrow> (None, h2)
                 | Inr im \<Rightarrow>
                     (let h3 = h2[icon_resized := im];
                          icon_center_x = button_x + of_int \<lfloor>button_width / 2\<rfloor>
                                            - of_int (target_icon_size div 2);
                          icon_center_y = button_y - of_int target_icon_size - 20;
                          pos = (py_trunc icon_center_x, py_trunc icon_center_y)
                      in case paste_err E (h3 ! icon_resized) pos of
                           Some e \<Rightarrow> (None, h3)
                         | None \<Rightarrow> (Some (Icon (fst pos) (snd pos) (h3 ! icon_resized)), h3))))"

section \<open>generate\_quest\_badge\<close>

text \<open>What was drawn on the card, by part.\<close>

record badge =
  logo :: text_op
  id_tag :: text_op
  title_lines :: "text_op list"
  desc_lines :: "text_op list"
  action_label :: text_op
  action_lines :: "text_op list"
  deadline_label :: text_op
  deadline_value :: text_op
  pill :: pill_op
  icon_placed :: "icon_op option"

text \<open>
  Lines 250--463, inside the outer \<open>try\<close>: the card, the fonts, the texts and the pill.
  \<open>Inr None\<close> is the \<open>return None\<close> after a font failed to load.
\<close>

text \<open>The logo mark, the three characters backslash, z, slash.\<close>

definition logo_text :: string where
  "logo_text = [CHR 0x5C, CHR ''z'', CHR ''/'']"

definition compose ::
  "env \<Rightarrow> string \<Rightarrow> string \<Rightarrow> string \<Rightarrow> string \<Rightarrow> int \<Rightarrow> int \<Rightarrow> py_exn + badge option" where
  "compose E title description action deadline did points =
     exn_bind (raise_if (card_err E)) (\<lambda>_.
     exn_bind (load_fonts E) (\<lambda>fo.
       case fo of
         None \<Rightarrow> Inr None
       | Some F \<Rightarrow>
     exn_bind (draw_at E 40 30 logo_text (logo_font F)) (\<lambda>lg.
     exn_bind (py_format_03d did) (\<lambda>id_digits.
     let id_text = ''Quest ID: '' @ id_digits in
     exn_bind (textlength E (small_font F) id_text) (\<lambda>id_width.
     exn_bind (draw_at E (width - 40 - id_width) 40 id_text (small_font F)) (\<lambda>idt.
     exn_bind (layout_title E (title_font F) title) (\<lambda>(tls, desc_y).
     exn_bind (layout_description E (body_font F) desc_y description) (\<lambda>(dls, desc_y').
     let info_y = max (desc_y' + 40) (height - 180) in
     exn_bind (draw_at E 40 info_y ''Action:'' (header_font F)) (\<lambda>al.
     exn_bind (textlength E (header_font F) ''Action:'') (\<lambda>action_width.
     let action_x = 40 + action_width + 25 in
     exn_bind (y_offset E F ''Action:'' action) (\<lambda>action_y_offset.
     exn_bind (py_str points) (\<lambda>points_text.
     exn_bind (textlength E (points_font F) points_text) (\<lambda>points_width.
     let button_width = points_width + 80;
         button_height = 70;
         button_x = width - button_width - 60;
         button_y = height - button_height - 50;
         max_action_width = button_x - action_x - 30 in
     exn_bind (layout_action E (body_font F) action action_x info_y action_y_offset
                 max_action_width) (\<lambda>(als, deadline_y).
     exn_bind (draw_at E 40 deadline_y ''Deadline:'' (header_font F)) (\<lambda>dl.
     exn_bind (textlength E (header_font F) ''Deadline:'') (\<lambda>deadline_width.
     let deadline_x = 40 + deadline_width + 25 in
     exn_bind (y_offset E F ''Deadline:'' deadline) (\<lambda>deadline_y_offset.
     exn_bind (draw_at E deadline_x (deadline_y + deadline_y_offset) deadline (body_font F))
       (\<lambda>dv.
     exn_bind (raise_if (pill_err E button_width points_text)) (\<lambda>_.
       Inr (Some \<lparr>logo = lg, id_tag = idt, title_lines = tls, desc_lines = dls,
                  action_label = al, action_lines = als, deadline_label = dl,
                  deadline_value = dv,
                  pill = Pill button_x button_y button_width button_height points_text,
                  icon_placed = None\<rparr>))))))))))))))))))))"

subsection \<open>Storing and returning the image (lines 489--532)\<close>

definition truthy :: "quest_id \<Rightarrow> bool" where
  "truthy q = (case q of QInt n \<Rightarrow> n \<noteq> 0 | QStr s \<Rightarrow> s \<noteq> [])"

definition str_quest_id :: "quest_id \<Rightarrow> py_exn + string" where
  "str_quest_id q = (case q of QInt n \<Rightarrow> py_str n | QStr s \<Rightarrow> Inr s)"

text \<open>
  With a client and a truthy \<open>quest_id\<close> the image is saved and upserted, and returned from
  inside that \<open>try\<close>; an exception there is logged and the final save and return follow.
\<close>

definition finalize :: "env \<Rightarrow> quest_id \<Rightarrow> badge \<Rightarrow> py_exn + badge option" where
  "finalize E q b =
     (case (case supabase_client E of
              None \<Rightarrow> None
            | Some upsert \<Rightarrow>
                if truthy q then
                  (case exn_bind (raise_if (save_err E)) (\<lambda>_.
                        exn_bind (str_quest_id q) (\<lambda>qs. raise_if (upsert qs))) of
                     Inl e \<Rightarrow> None
                   | Inr _ \<Rightarrow> Some b)
                else None) of
        Some r \<Rightarrow> Inr (Some r)
      | None \<Rightarrow> exn_bind (raise_if (save_err E)) (\<lambda>_. Inr (Some b)))"

text \<open>
  The whole function: the display id is computed before the outer \<open>try\<close>; inside it every
  exception becomes the result \<open>None\<close>. \<open>icon_image\<close> is a reference into the store
  \<open>h\<close> or \<open>None\<close>. The result is what the caller gets, \<open>Inl\<close> an exception that
  escaped, with the store after the call.
\<close>

definition generate_quest_badge ::
  "env \<Rightarrow> image list \<Rightarrow> string \<Rightarrow> string \<Rightarrow> string \<Rightarrow> string \<Rightarrow> quest_id \<Rightarrow> int \<Rightarrow> nat option
     \<Rightarrow> (py_exn + badge option) \<times> image list" where
  "generate_quest_badge E h title description action deadline quest_id points icon_image =
     (case display_id (hash E) quest_id of
        Inl e \<Rightarrow> (Inl e, h)
      | Inr did \<Rightarrow>
          (case compose E title description action deadline did points of
             Inl e \<Rightarrow> (Inr None, h)
           | Inr None \<Rightarrow> (Inr None, h)
           | Inr (Some b) \<Rightarrow>
               (case (case icon_image of
                        None \<Rightarrow> (None, h)
                      | Some r \<Rightarrow> place_icon E h (pill_w (pill b)) (pill_x (pill b))
                                   (pill_y (pill b)) r) of
                  (ic, h') \<Rightarrow>
                    (case finalize E quest_id (b\<lparr>icon_placed := ic\<rparr>) of
                       Inl e \<Rightarrow> (Inr None, h')
                     | Inr res \<Rightarrow> (Inr res, h')))))"

section \<open>The icon catalogue (icon\_provider.py)\<close>

text \<open>
  \<open>ICON_CATEGORIES\<close>: each key with its description and, for \<open>default\<close> only, the
  \<open>filename\<close> entry.
\<close>

definition ICON_CATEGORIES :: "(string \<times> string \<times> string option) list" where
  "ICON_CATEGORIES =
     [(''Spiritual'', ''Spiritual quests'', None),
      (''Science & tech'', ''Science & Technology'', None),
      (''Literature'', ''Literature & Writing'', None),
      (''Health & Fitness'', ''Health & Fitness'', None),
      (''Follow your Heart'', ''Follow Your Heart'', None),
      (''Travel & Adventure'', ''Travel & Adventure'', None),
      (''Cinema'', ''Television & Cinema'', None),
      (''Storytelling'', ''Stories & Journals'', None),
      (''Sports'', ''Sports'', None),
      (''Content'', ''Photography & Content Creation'', None),
      (''Podcast'', ''Open Mic & Podcasts'', None),
      (''Nature & Wildlife'', ''Nature & Wildlife'', None),
      (''Music'', ''Music'', None),
      (''Law & Order'', ''Law & Order'', None),
      (''Lifestyle'', ''Home & Lifestyle'', None),
      (''Games'', ''Games'', None),
      (''Food'', ''Food'', None),
      (''Design'', ''Design'', None),
      (''Business'', ''Business'', None),
      (''default'', ''Default/General'', Some ''Spiritual'')]"

definition known_category :: "string \<Rightarrow> bool" where
  "known_category c = (c \<in> set (map fst ICON_CATEGORIES))"

text \<open>The category after the fallback of lines 71--73.\<close>

definition effective_category :: "string \<Rightarrow> string" where
  "effective_category category = (if \<not> known_category category then ''default'' else category)"






section \<open>Sample environments\<close>

text \<open>
  Concrete environments on which the functions are evaluated. Text is measured glyph by
  glyph: a glyph's advance is a fraction of the font size, and measuring a text with a
  line feed raises \<open>ValueError\<close>, as Pillow's \<open>textlength\<close> does. All fonts load, no drawing
  call fails, and there is no storage client.
\<close>

definition hash31 :: "string \<Rightarrow> int" where
  "hash31 s = foldl (\<lambda>h c. h * 31 + int (of_char c)) 7 s"

text \<open>A wrapper by character count: words are packed greedily into lines of at most \<open>n\<close>.\<close>

fun pack_words :: "nat \<Rightarrow> string list \<Rightarrow> string \<Rightarrow> string list \<Rightarrow> string list" where
  "pack_words n ls cur [] = (if cur = [] then ls else ls @ [cur])"
| "pack_words n ls cur (w # ws) =
     (if cur = [] then pack_words n ls w ws
      else if length cur + 1 + length w \<le> n then pack_words n ls (cur @ '' '' @ w) ws
      else pack_words n (ls @ [cur]) w ws)"

definition sample_wrap :: "string \<Rightarrow> nat \<Rightarrow> string list" where
  "sample_wrap s n = pack_words n [] [] (py_split s)"

definition text_width :: "(char \<Rightarrow> rat) \<Rightarrow> font \<Rightarrow> string \<Rightarrow> rat" where
  "text_width adv f s = of_nat (fsize f) * sum_list (map adv s)"

definition sample_png :: image where
  "sample_png = \<lparr>mode = ''P'', isize = (150, 150), pixels = [1, 2, 3]\<rparr>"

definition sample_exists :: "string \<Rightarrow> bool" where
  "sample_exists p = (p \<in> set [''icons/Spiritual.png'', ''icons/Sports.png''])"

text \<open>The file of \<open>Sports\<close> exists but cannot be decoded; only \<open>Spiritual\<close> loads.\<close>

definition sample_open :: "string \<Rightarrow> py_exn + image" where
  "sample_open p = (if p = ''icons/Spiritual.png'' then Inr sample_png else Inl OtherError)"

definition sample_thumbnail :: "int \<times> int \<Rightarrow> image \<Rightarrow> py_exn + image" where
  "sample_thumbnail sz im =
     Inr (im\<lparr>isize := (min (fst (isize im)) (nat (fst sz)), min (snd (isize im)) (nat (snd sz))),
             pixels := []\<rparr>)"

definition glyph_env :: "(char \<Rightarrow> rat) \<Rightarrow> env" where
  "glyph_env adv =
     \<lparr>hash = hash31,
      card_err = None,
      truetype = (\<lambda>path n. None),
      textlength = (\<lambda>f s. if CHR 0x0A \<in> set s then Inl ValueError else Inr (text_width adv f s)),
      getbbox = (\<lambda>f s. Inr (0, 0, text_width adv f s, of_nat (fsize f))),
      draw_text = (\<lambda>pos s f. None),
      wrap = sample_wrap,
      pill_err = (\<lambda>w s. None),
      convert_pixels = (\<lambda>m im. Inr (pixels im)),
      thumbnail = sample_thumbnail,
      paste_err = (\<lambda>im pos. None),
      save_err = None,
      supabase_client = None,
      icons_dir = ''icons'',
      path_exists = sample_exists,
      image_open = sample_open\<rparr>"

text \<open>Every glyph half the font size wide.\<close>

definition mono_env :: env where
  "mono_env = glyph_env (\<lambda>c. 1 / 2)"

text \<open>A proportional font: the digit one is narrower than the other glyphs.\<close>

definition prop_env :: env where
  "prop_env = glyph_env (\<lambda>c. if c = CHR ''1'' then 3 / 10 else 3 / 5)"


text \<open>
  The environment of another process: everything as in \<open>mono_env\<close>, the string hash salted
  differently.
\<close>

definition hash31_resalted :: "string \<Rightarrow> int" where
  "hash31_resalted s = hash31 s + 1"

definition resalted_env :: env where
  "resalted_env = mono_env\<lparr>hash := hash31_resalted\<rparr>"

section \<open>Sample calls and auxiliary definitions\<close>

text \<open>The badge a call returned, if it returned one.\<close>

definition badge_of :: "(py_exn + badge option) \<times> image list \<Rightarrow> badge option" where
  "badge_of r = (case fst r of Inr (Some b) \<Rightarrow> Some b | _ \<Rightarrow> None)"


text \<open>The badge of the call of test\_badge.py with a hyphenated id, in \<open>mono_env\<close>.\<close>

definition sample_badge :: badge where
  "sample_badge =
     \<lparr>logo = Text 40 30 logo_text (Font ''fonts/Montserrat-ExtraBold.ttf'' 65),
      id_tag = Text 604 40 ''Quest ID: 344'' (Font ''fonts/Montserrat-Medium.ttf'' 24),
      title_lines = [Text 40 160 ''Zo Zo'' (Font ''fonts/Montserrat-Bold.ttf'' 50)],
      desc_lines = [Text 40 230 ''ZO ZO ZO'' (Font ''fonts/Montserrat-Medium.ttf'' 26)],
      action_label = Text 40 320 ''Action:'' (Font ''fonts/Montserrat-Bold.ttf'' 32),
      action_lines = [Text 177 (1289 / 4) ''Photo'' (Font ''fonts/Montserrat-Medium.ttf'' 26)],
      deadline_label = Text 40 360 ''Deadline:'' (Font ''fonts/Montserrat-Bold.ttf'' 32),
      deadline_value = Text 209 (1449 / 4) ''ZO O Zo Z'' (Font ''fonts/Montserrat-Medium.ttf'' 26),
      pill = Pill 540 380 200 70 ''111'',
      icon_placed = None\<rparr>"

text \<open>The fonts of a call in which all six loaded.\<close>

definition loaded_fonts :: fonts where
  "loaded_fonts =
     \<lparr>title_font = Font ''fonts/Montserrat-Bold.ttf'' 50,
      logo_font = Font ''fonts/Montserrat-ExtraBold.ttf'' 65,
      header_font = Font ''fonts/Montserrat-Bold.ttf'' 32,
      body_font = Font ''fonts/Montserrat-Medium.ttf'' 26,
      small_font = Font ''fonts/Montserrat-Medium.ttf'' 24,
      points_font = Font ''fonts/Montserrat-Bold.ttf'' 80\<rparr>"

text \<open>
  A second call in \<open>mono_env\<close>, with a palette-mode icon at reference 0 and 9 points: its
  badge and the store it leaves.
\<close>

definition sample_badge2 :: badge where
  "sample_badge2 =
     \<lparr>logo = Text 40 30 logo_text (Font ''fonts/Montserrat-ExtraBold.ttf'' 65),
      id_tag = Text 604 40 ''Quest ID: 344'' (Font ''fonts/Montserrat-Medium.ttf'' 24),
      title_lines = [Text 40 160 ''Meet Samurai'' (Font ''fonts/Montserrat-Bold.ttf'' 50)],
      desc_lines = [Text 40 230 ''Take a selfie with samurai'' (Font ''fonts/Montserrat-Medium.ttf'' 26),
                    Text 40 265 ''at Zo House.'' (Font ''fonts/Montserrat-Medium.ttf'' 26)],
      action_label = Text 40 340 ''Action:'' (Font ''fonts/Montserrat-Bold.ttf'' 32),
      action_lines = [Text 177 (1369 / 4) ''Photo'' (Font ''fonts/Montserrat-Medium.ttf'' 26)],
      deadline_label = Text 40 380 ''Deadline:'' (Font ''fonts/Montserrat-Bold.ttf'' 32),
      deadline_value = Text 209 (1529 / 4) ''2025-05-04'' (Font ''fonts/Montserrat-Medium.ttf'' 26),
      pill = Pill 620 380 120 70 ''9'',
      icon_placed = Some (Icon 590 180 \<lparr>mode = ''RGBA'', isize = (150, 150), pixels = []\<rparr>)\<rparr>"

definition sample_store2 :: "image list" where
  "sample_store2 =
     [sample_png,
      \<lparr>mode = ''RGBA'', isize = (150, 150), pixels = [1, 2, 3]\<rparr>,
      \<lparr>mode = ''RGBA'', isize = (150, 150), pixels = []\<rparr>]"

text \<open>
  A third call in \<open>mono_env\<close>: a title whose first word is wider than the limit, a
  description of 12 words, an action that wraps, and a numeric id above 999.
\<close>

definition sample_badge3 :: badge where
  "sample_badge3 =
     \<lparr>logo = Text 40 30 logo_text (Font ''fonts/Montserrat-ExtraBold.ttf'' 65),
      id_tag = Text 592 40 ''Quest ID: 1234'' (Font ''fonts/Montserrat-Medium.ttf'' 24),
      title_lines = [Text 40 160 ''Incomprehensibilities'' (Font ''fonts/Montserrat-Bold.ttf'' 50),
                     Text 40 205 ''Quest Now'' (Font ''fonts/Montserrat-Bold.ttf'' 50)],
      desc_lines = [Text 40 290 ''a b c d e f g h i j...'' (Font ''fonts/Montserrat-Medium.ttf'' 26)],
      action_label = Text 40 365 ''Action:'' (Font ''fonts/Montserrat-Bold.ttf'' 32),
      action_lines = [Text 177 (1469 / 4) ''Go'' (Font ''fonts/Montserrat-Medium.ttf'' 26),
                      Text 177 (7761 / 20) ''Supercalifragilisticexpialidocious''
                        (Font ''fonts/Montserrat-Medium.ttf'' 26),
                      Text 177 (8177 / 20) ''now'' (Font ''fonts/Montserrat-Medium.ttf'' 26)],
      deadline_label = Text 40 (8793 / 20) ''Deadline:'' (Font ''fonts/Montserrat-Bold.ttf'' 32),
      deadline_value = Text 209 (4419 / 10) ''2025-05-04'' (Font ''fonts/Montserrat-Medium.ttf'' 26),
      pill = Pill 540 380 200 70 ''420'',
      icon_placed = Some (Icon 490 60 \<lparr>mode = ''RGBA'', isize = (150, 150), pixels = []\<rparr>)\<rparr>"




section \<open>Basic facts\<close>

lemma exn_bind_Inl [simp]: "exn_bind (Inl e) f = Inl e"
  by (simp add: exn_bind_def)

lemma exn_bind_Inr [simp]: "exn_bind (Inr x) f = f x"
  by (simp add: exn_bind_def)

lemma exn_bind_eq_Inr: "exn_bind m f = Inr y \<longleftrightarrow> (\<exists>x. m = Inr x \<and> f x = Inr y)"
  by (cases m) simp_all

lemma raise_if_eq_Inr: "raise_if r = Inr u \<longleftrightarrow> r = None"
  by (cases r) (simp_all add: raise_if_def)

lemma draw_at_eq_Inr: "draw_at E x y s f = Inr t \<Longrightarrow> t = Text x y s f"
  by (auto simp: draw_at_def split: option.splits)

lemma draw_lines_result:
  "draw_lines E f x y dy ls = Inr (ts, y') \<Longrightarrow>
     ts = map (\<lambda>(i, l). Text x (y + of_nat i * dy) l f) (zip [0..<length ls] ls) \<and>
     y' = y + of_nat (length ls) * dy"
proof (induction ls arbitrary: y ts)
  case Nil
  then show ?case by simp
next
  case (Cons l ls)
  from Cons.prems obtain t ts0 where
    t: "draw_at E x y l f = Inr t" and
    r: "draw_lines E f x (y + dy) dy ls = Inr (ts0, y')" and
    ts: "ts = t # ts0"
    by (auto simp: exn_bind_eq_Inr)
  from Cons.IH [OF r] have
    ts0: "ts0 = map (\<lambda>(i, l). Text x (y + dy + of_nat i * dy) l f) (zip [0..<length ls] ls)"
    and y': "y' = y + dy + of_nat (length ls) * dy"
    by simp_all
  have z: "zip [0..<length (l # ls)] (l # ls) = (0, l) # map (\<lambda>(i, l). (Suc i, l)) (zip [0..<length ls] ls)"
    by (simp add: upt_conv_Cons map_Suc_upt [symmetric] zip_map1 del: upt_Suc)
  show ?case
    using ts ts0 y' draw_at_eq_Inr [OF t]
    by (simp only: z) (simp add: algebra_simps case_prod_beta comp_def)
qed

lemma load_fonts_Some:
  "load_fonts E = Inr (Some F) \<Longrightarrow>
     F = \<lparr>title_font = Font ''fonts/Montserrat-Bold.ttf'' 50,
          logo_font = Font ''fonts/Montserrat-ExtraBold.ttf'' 65,
          header_font = Font ''fonts/Montserrat-Bold.ttf'' 32,
          body_font = Font ''fonts/Montserrat-Medium.ttf'' 26,
          small_font = Font ''fonts/Montserrat-Medium.ttf'' 24,
          points_font = Font ''fonts/Montserrat-Bold.ttf'' 80\<rparr> \<and>
     truetype E ''fonts/Montserrat-Bold.ttf'' 50 = None \<and>
     truetype E ''fonts/Montserrat-ExtraBold.ttf'' 65 = None \<and>
     truetype E ''fonts/Montserrat-Bold.ttf'' 32 = None \<and>
     truetype E ''fonts/Montserrat-Medium.ttf'' 26 = None \<and>
     truetype E ''fonts/Montserrat-Medium.ttf'' 24 = None \<and>
     truetype E ''fonts/Montserrat-Bold.ttf'' 80 = None"
  unfolding load_fonts_def load_font_def
  by (auto simp: exn_bind_eq_Inr split: sum.splits option.splits if_splits)

lemma py_format_03d_Inr: "py_format_03d d = Inr s \<Longrightarrow> s = fmt_03d d"
  by (auto simp: py_format_03d_def split: if_splits)

lemma py_str_Inr: "py_str i = Inr s \<Longrightarrow> s = str_int i"
  by (auto simp: py_str_def split: if_splits)

lemma compose_SomeE:
  assumes "compose E title description action deadline did points = Inr (Some b)"
  obtains F id_width desc_y desc_y' action_width action_y_offset points_width deadline_y where
    "load_fonts E = Inr (Some F)"
    "textlength E (small_font F) (''Quest ID: '' @ fmt_03d did) = Inr id_width"
    "id_tag b = Text (width - 40 - id_width) 40 (''Quest ID: '' @ fmt_03d did) (small_font F)"
    "layout_title E (title_font F) title = Inr (title_lines b, desc_y)"
    "layout_description E (body_font F) desc_y description = Inr (desc_lines b, desc_y')"
    "action_label b = Text 40 (max (desc_y' + 40) (height - 180)) ''Action:'' (header_font F)"
    "textlength E (header_font F) ''Action:'' = Inr action_width"
    "y_offset E F ''Action:'' action = Inr action_y_offset"
    "textlength E (points_font F) (str_int points) = Inr points_width"
    "layout_action E (body_font F) action (40 + action_width + 25)
       (max (desc_y' + 40) (height - 180)) action_y_offset
       (width - (points_width + 80) - 60 - (40 + action_width + 25) - 30)
     = Inr (action_lines b, deadline_y)"
    "deadline_label b = Text 40 deadline_y ''Deadline:'' (header_font F)"
    "pill b = Pill (width - (points_width + 80) - 60) (height - 70 - 50) (points_width + 80) 70
                (str_int points)"
    "icon_placed b = None"
  using assms unfolding compose_def Let_def
  by (auto simp: exn_bind_eq_Inr raise_if_eq_Inr split: option.splits
        dest!: draw_at_eq_Inr py_format_03d_Inr py_str_Inr)

lemma finalize_cases: "finalize E q b = Inr (Some b) \<or> (\<exists>e. finalize E q b = Inl e)"
  unfolding finalize_def
  by (auto simp: raise_if_def split: option.splits sum.splits)

text \<open>
  \<open>int\<close> does not skip the separators 0x1C to 0x1F, which \<open>str.split\<close> treats as
  whitespace: around a digit they make the conversion fail.
\<close>

lemma py_int_separators:
  "py_int [CHR 0x1F, CHR ''7'', CHR 0x1C] = Inl ValueError \<and>
   py_int [CHR 0x09, CHR ''7'', CHR '' ''] = Inr 7 \<and>
   py_split [CHR 0x1F, CHR ''7'', CHR 0x1C] = [''7'']"
  by code_simp

lemma py_int_raises: "py_int s = Inl e \<Longrightarrow> e = ValueError"
  unfolding py_int_def Let_def by (auto split: list.splits option.splits if_splits)

lemma display_id_total: "\<exists>d. display_id hs q = Inr d"
  unfolding display_id_def
  by (auto split: quest_id.splits sum.splits dest: py_int_raises)


lemma generate_SomeE:
  assumes "generate_quest_badge E h title description action deadline q points ic
             = (Inr (Some b), h')"
  obtains did b0 where
    "display_id (hash E) q = Inr did"
    "compose E title description action deadline did points = Inr (Some b0)"
    "b = b0\<lparr>icon_placed := icon_placed b\<rparr>"
proof -
  obtain d where d: "display_id (hash E) q = Inr d"
    using display_id_total by blast
  from assms obtain b0 icn where
    c: "compose E title description action deadline d points = Inr (Some b0)" and
    f: "finalize E q (b0\<lparr>icon_placed := icn\<rparr>) = Inr (Some b)"
    unfolding generate_quest_badge_def d
    by (auto split: sum.splits option.splits prod.splits)
  from f finalize_cases [of E q "b0\<lparr>icon_placed := icn\<rparr>"]
  have "b = b0\<lparr>icon_placed := icn\<rparr>" by auto
  then have "b = b0\<lparr>icon_placed := icon_placed b\<rparr>" by simp
  with d c show ?thesis by (rule that)
qed


section \<open>Claims\<close>

subsection \<open>Exceptions\<close>



subsection \<open>The quest-id tag\<close>

lemma digit_char_digit: "d < 10 \<Longrightarrow> digit_char d \<in> set ''0123456789''"
proof -
  assume "d < 10"
  then have "d \<in> {0, 1, 2, 3, 4, 5, 6, 7, 8, 9}" by auto
  then show ?thesis by (auto simp: digit_char_def)
qed

lemma str_nat_digits: "set (str_nat n) \<subseteq> set ''0123456789''"
proof (induction n rule: str_nat.induct)
  case (1 n)
  show ?case
  proof (cases "n < 10")
    case True
    then show ?thesis
      using digit_char_digit [of n] by (subst str_nat.simps) simp
  next
    case False
    have "n mod 10 < 10" by simp
    from digit_char_digit [OF this] 1 [OF False] False show ?thesis
      by (subst str_nat.simps) simp
  qed
qed

lemma str_nat_length_pos: "0 < length (str_nat n)"
  by (subst str_nat.simps) simp

lemma str_nat_length_small: "n < 1000 \<Longrightarrow> length (str_nat n) \<le> 3"
  by (subst str_nat.simps, simp, subst str_nat.simps, simp, subst str_nat.simps, simp)

lemma str_nat_step: "10 \<le> n \<Longrightarrow> length (str_nat n) = Suc (length (str_nat (n div 10)))"
  using str_nat.simps [of n] by simp

lemma str_nat_length_large: "1000 \<le> n \<Longrightarrow> 4 \<le> length (str_nat n)"
proof -
  assume n: "1000 \<le> n"
  then have "10 \<le> n" "10 \<le> n div 10" "10 \<le> n div 10 div 10"
    by (simp_all add: less_eq_div_iff_mult_less_eq)
  then show ?thesis
    using str_nat_length_pos [of "n div 10 div 10 div 10"]
    by (simp add: str_nat_step Suc_le_eq del: length_greater_0_conv)
qed

lemma fmt_03d_nonneg:
  "0 \<le> d \<Longrightarrow> fmt_03d d = replicate (3 - length (str_int d)) (CHR ''0'') @ str_int d"
  by (simp add: fmt_03d_def str_int_def Let_def)

lemma fmt_03d_length: "0 \<le> d \<Longrightarrow> length (fmt_03d d) = max 3 (length (str_int d))"
  by (simp add: fmt_03d_nonneg)

lemma fmt_03d_digits: "0 \<le> d \<Longrightarrow> set (fmt_03d d) \<subseteq> set ''0123456789''"
  using str_nat_digits [of "nat d"] by (auto simp: fmt_03d_nonneg str_int_def)

lemma fmt_03d_three: "0 \<le> d \<Longrightarrow> length (fmt_03d d) = 3 \<longleftrightarrow> d \<le> 999"
proof -
  assume d: "0 \<le> d"
  show ?thesis
  proof (cases "d \<le> 999")
    case True
    then have "nat d < 1000" using d by simp
    from str_nat_length_small [OF this] True d show ?thesis
      by (simp add: fmt_03d_length str_int_def)
  next
    case False
    then have "1000 \<le> nat d" by simp
    from str_nat_length_large [OF this] False d show ?thesis
      by (simp add: fmt_03d_length str_int_def)
  qed
qed

lemma generate_id_tag:
  assumes "generate_quest_badge E h title description action deadline q points ic
             = (Inr (Some b), h')"
  shows "\<exists>d w. display_id (hash E) q = Inr d \<and>
           textlength E (Font ''fonts/Montserrat-Medium.ttf'' 24) (''Quest ID: '' @ fmt_03d d) = Inr w \<and>
           id_tag b = Text (width - 40 - w) 40 (''Quest ID: '' @ fmt_03d d)
                        (Font ''fonts/Montserrat-Medium.ttf'' 24)"
proof -
  from assms obtain did b0 where
    d: "display_id (hash E) q = Inr did" and
    c: "compose E title description action deadline did points = Inr (Some b0)" and
    b: "b = b0\<lparr>icon_placed := icon_placed b\<rparr>"
    by (rule generate_SomeE)
  from c obtain F w where
    F: "load_fonts E = Inr (Some F)" and
    w: "textlength E (small_font F) (''Quest ID: '' @ fmt_03d did) = Inr w" and
    t: "id_tag b0 = Text (width - 40 - w) 40 (''Quest ID: '' @ fmt_03d did) (small_font F)"
    by (rule compose_SomeE)
  have sf: "small_font F = Font ''fonts/Montserrat-Medium.ttf'' 24"
    using load_fonts_Some [OF F] by simp
  have "id_tag b = id_tag b0" by (subst b) simp
  with d w t sf show ?thesis by simp
qed

text \<open>
  C2 (as amended). An integer \<open>quest_id\<close> is its own display id; a string with a hyphen gets
  its hash modulo 1000, also when it spells a negative number; any other string gets
  \<open>int(s)\<close> when \<open>int\<close> accepts it (\<open>py_int\<close>: decimal digits, at most 4300 of them, with
  single underscores between digits, a sign and the whitespace \<open>int\<close> skips around) and
  its hash modulo 1000 otherwise. A hashed id lies in 0..999. The tag drawn is \<open>Quest ID:\<close>
  and the display id in the format \<open>03d\<close>: for a non-negative id, decimal digits only,
  padded with zeros to at least 3 digits, and exactly 3 digits if and only if the id is at
  most 999.
\<close>

theorem display_id_and_tag:
  "display_id hs (QInt n) = Inr n \<and>
   display_id hs (QStr s) =
     Inr (if CHR ''-'' \<in> set s then hs s mod 1000
          else case py_int s of Inr k \<Rightarrow> k | Inl e \<Rightarrow> hs s mod 1000) \<and>
   0 \<le> hs s mod 1000 \<and> hs s mod 1000 \<le> 999 \<and>
   (generate_quest_badge E h title description action deadline q points ic = (Inr (Some b), h')
      \<longrightarrow> (\<exists>d. display_id (hash E) q = Inr d \<and> t_str (id_tag b) = ''Quest ID: '' @ fmt_03d d)) \<and>
   (0 \<le> d \<longrightarrow>
      fmt_03d d = replicate (3 - length (str_int d)) (CHR ''0'') @ str_int d \<and>
      set (fmt_03d d) \<subseteq> set ''0123456789'' \<and>
      length (fmt_03d d) = max 3 (length (str_int d)) \<and>
      (length (fmt_03d d) = 3 \<longleftrightarrow> d \<le> 999))"
proof (intro conjI impI)
  show "display_id hs (QInt n) = Inr n"
    by (simp add: display_id_def)
  show "display_id hs (QStr s) =
     Inr (if CHR ''-'' \<in> set s then hs s mod 1000
          else case py_int s of Inr k \<Rightarrow> k | Inl e \<Rightarrow> hs s mod 1000)"
    by (auto simp: display_id_def split: sum.splits dest: py_int_raises)
  show "0 \<le> hs s mod 1000" by simp
  show "hs s mod 1000 \<le> 999"
    using pos_mod_bound [of 1000 "hs s"] by simp
next
  assume "generate_quest_badge E h title description action deadline q points ic
            = (Inr (Some b), h')"
  from generate_id_tag [OF this]
  show "\<exists>d. display_id (hash E) q = Inr d \<and> t_str (id_tag b) = ''Quest ID: '' @ fmt_03d d"
    by auto
next
  assume d: "0 \<le> d"
  show "fmt_03d d = replicate (3 - length (str_int d)) (CHR ''0'') @ str_int d"
    by (rule fmt_03d_nonneg [OF d])
  show "set (fmt_03d d) \<subseteq> set ''0123456789''"
    by (rule fmt_03d_digits [OF d])
  show "length (fmt_03d d) = max 3 (length (str_int d))"
    by (rule fmt_03d_length [OF d])
  show "length (fmt_03d d) = 3 \<longleftrightarrow> d \<le> 999"
    by (rule fmt_03d_three [OF d])
qed

text \<open>
  The claim as stated fails for a numeric id above 999: the string \<open>1234\<close> is used directly
  and rendered with four digits.
\<close>

theorem display_id_and_tag_counterexample:
  "map_option (t_str \<circ> id_tag)
     (badge_of (generate_quest_badge mono_env [] ''Zo Zo'' ''ZO ZO ZO'' ''Photo'' ''ZO O Zo Z''
                  (QStr ''1234'') 111 None)) = Some ''Quest ID: 1234'' \<and>
   display_id (hash mono_env) (QStr ''1234'') = Inr 1234 \<and>
   length (fmt_03d 1234) = 4"
  by code_simp

theorem display_id_and_tag_witness:
  "generate_quest_badge mono_env [] ''Zo Zo'' ''ZO ZO ZO'' ''Photo'' ''ZO O Zo Z''
     (QStr ''abc-123-def'') 111 None
     = (Inr (Some sample_badge), []) \<and>
   (\<exists>d. display_id (hash mono_env) (QStr ''abc-123-def'') = Inr d \<and>
        t_str (id_tag sample_badge) = ''Quest ID: '' @ fmt_03d d) \<and>
   length (fmt_03d 344) = 3"
proof -
  have g: "generate_quest_badge mono_env [] ''Zo Zo'' ''ZO ZO ZO'' ''Photo'' ''ZO O Zo Z''
     (QStr ''abc-123-def'') 111 None = (Inr (Some sample_badge), [])"
    by code_simp
  note t = display_id_and_tag [where hs = hash31 and n = 0 and s = "''''" and E = mono_env
      and h = "[]" and title = "''Zo Zo''" and description = "''ZO ZO ZO''"
      and action = "''Photo''" and deadline = "''ZO O Zo Z''" and q = "QStr ''abc-123-def''"
      and points = 111 and ic = None and b = sample_badge and h' = "[]" and d = 344]
  have z: "(0::int) \<le> 344" by simp
  from t z have "length (fmt_03d 344) = 3 \<longleftrightarrow> (344::int) \<le> 999" by blast
  then have l: "length (fmt_03d 344) = 3" by simp
  from t g have "\<exists>d. display_id (hash mono_env) (QStr ''abc-123-def'') = Inr d \<and>
        t_str (id_tag sample_badge) = ''Quest ID: '' @ fmt_03d d" by blast
  with g l show ?thesis by blast
qed

subsection \<open>What a produced badge was laid out from\<close>

lemma load_fonts_loaded: "load_fonts E = Inr (Some F) \<Longrightarrow> F = loaded_fonts"
  using load_fonts_Some [of E F] by (simp add: loaded_fonts_def)

lemma generate_layoutE:
  assumes "generate_quest_badge E h title description action deadline q points ic
             = (Inr (Some b), h')"
  obtains desc_y desc_y' action_width action_y_offset points_width deadline_y where
    "layout_title E (Font ''fonts/Montserrat-Bold.ttf'' 50) title = Inr (title_lines b, desc_y)"
    "layout_description E (Font ''fonts/Montserrat-Medium.ttf'' 26) desc_y description
       = Inr (desc_lines b, desc_y')"
    "action_label b = Text 40 (max (desc_y' + 40) (height - 180)) ''Action:''
                        (Font ''fonts/Montserrat-Bold.ttf'' 32)"
    "textlength E (Font ''fonts/Montserrat-Bold.ttf'' 32) ''Action:'' = Inr action_width"
    "y_offset E loaded_fonts ''Action:'' action = Inr action_y_offset"
    "textlength E (Font ''fonts/Montserrat-Bold.ttf'' 80) (str_int points) = Inr points_width"
    "layout_action E (Font ''fonts/Montserrat-Medium.ttf'' 26) action (40 + action_width + 25)
       (max (desc_y' + 40) (height - 180)) action_y_offset
       (width - (points_width + 80) - 60 - (40 + action_width + 25) - 30)
     = Inr (action_lines b, deadline_y)"
    "deadline_label b = Text 40 deadline_y ''Deadline:'' (Font ''fonts/Montserrat-Bold.ttf'' 32)"
    "pill b = Pill (width - (points_width + 80) - 60) (height - 70 - 50) (points_width + 80) 70
                (str_int points)"
proof -
  from assms obtain did b0 where
    c: "compose E title description action deadline did points = Inr (Some b0)" and
    b: "b = b0\<lparr>icon_placed := icon_placed b\<rparr>"
    by (rule generate_SomeE)
  have eqs: "title_lines b = title_lines b0" "desc_lines b = desc_lines b0"
    "action_label b = action_label b0" "action_lines b = action_lines b0"
    "deadline_label b = deadline_label b0" "pill b = pill b0"
    by (subst b, simp)+
  from c obtain F desc_y desc_y' action_width action_y_offset points_width deadline_y where
    F: "load_fonts E = Inr (Some F)" and
    f: "layout_title E (title_font F) title = Inr (title_lines b0, desc_y)"
    "layout_description E (body_font F) desc_y description = Inr (desc_lines b0, desc_y')"
    "action_label b0 = Text 40 (max (desc_y' + 40) (height - 180)) ''Action:'' (header_font F)"
    "textlength E (header_font F) ''Action:'' = Inr action_width"
    "y_offset E F ''Action:'' action = Inr action_y_offset"
    "textlength E (points_font F) (str_int points) = Inr points_width"
    "layout_action E (body_font F) action (40 + action_width + 25)
       (max (desc_y' + 40) (height - 180)) action_y_offset
       (width - (points_width + 80) - 60 - (40 + action_width + 25) - 30)
     = Inr (action_lines b0, deadline_y)"
    "deadline_label b0 = Text 40 deadline_y ''Deadline:'' (header_font F)"
    "pill b0 = Pill (width - (points_width + 80) - 60) (height - 70 - 50) (points_width + 80) 70
                (str_int points)"
    by (rule compose_SomeE)
  have F': "F = loaded_fonts" by (rule load_fonts_loaded [OF F])
  show ?thesis
    using f unfolding F' eqs [symmetric]
    by (intro that [of desc_y desc_y' action_width action_y_offset points_width deadline_y])
       (simp_all add: loaded_fonts_def)
qed

subsection \<open>Determinism of the display id\<close>

lemma display_id_hash_free:
  assumes "hs1 = hs2 \<or> (\<exists>n. q = QInt n) \<or>
           (\<exists>s n. q = QStr s \<and> CHR ''-'' \<notin> set s \<and> py_int s = Inr n)"
  shows "display_id hs1 q = display_id hs2 q"
  using assms by (auto simp: display_id_def)

text \<open>
  C8 (as amended). Within one process, that is with one string hash, two calls with the
  same \<open>quest_id\<close> and any other inputs, when both produce a badge, draw the same quest-id
  tag text, the display id of that \<open>quest_id\<close> in the format \<open>03d\<close>; in one and the same
  environment the whole tag, position included, is the same. Across processes, whose
  hashes differ, this holds for an integer \<open>quest_id\<close> and for a string without a hyphen
  that \<open>int\<close> parses, since their display id does not use the hash; nothing is promised for
  a hashed string across processes.
\<close>

theorem display_id_deterministic:
  assumes "generate_quest_badge E1 h1 title1 description1 action1 deadline1 q points1 ic1
             = (Inr (Some b1), h1')"
    and "generate_quest_badge E2 h2 title2 description2 action2 deadline2 q points2 ic2
             = (Inr (Some b2), h2')"
    and "hash E1 = hash E2 \<or> (\<exists>n. q = QInt n) \<or>
         (\<exists>s n. q = QStr s \<and> CHR ''-'' \<notin> set s \<and> py_int s = Inr n)"
  shows "t_str (id_tag b1) = t_str (id_tag b2) \<and>
         (E1 = E2 \<longrightarrow> id_tag b1 = id_tag b2) \<and>
         (\<exists>d. display_id (hash E1) q = Inr d \<and> t_str (id_tag b1) = ''Quest ID: '' @ fmt_03d d)"
proof -
  from generate_id_tag [OF assms(1)] obtain d1 w1 where
    d1: "display_id (hash E1) q = Inr d1" and
    w1: "textlength E1 (Font ''fonts/Montserrat-Medium.ttf'' 24) (''Quest ID: '' @ fmt_03d d1) = Inr w1" and
    t1: "id_tag b1 = Text (width - 40 - w1) 40 (''Quest ID: '' @ fmt_03d d1)
                       (Font ''fonts/Montserrat-Medium.ttf'' 24)"
    by blast
  from generate_id_tag [OF assms(2)] obtain d2 w2 where
    d2: "display_id (hash E2) q = Inr d2" and
    w2: "textlength E2 (Font ''fonts/Montserrat-Medium.ttf'' 24) (''Quest ID: '' @ fmt_03d d2) = Inr w2" and
    t2: "id_tag b2 = Text (width - 40 - w2) 40 (''Quest ID: '' @ fmt_03d d2)
                       (Font ''fonts/Montserrat-Medium.ttf'' 24)"
    by blast
  from display_id_hash_free [OF assms(3)] d1 d2 have d: "d1 = d2"
    by simp
  have same: "id_tag b1 = id_tag b2" if "E1 = E2"
    using that w1 w2 t1 t2 d by simp
  from d t1 t2 have "t_str (id_tag b1) = t_str (id_tag b2)"
    by simp
  moreover from d1 t1
  have "\<exists>d. display_id (hash E1) q = Inr d \<and> t_str (id_tag b1) = ''Quest ID: '' @ fmt_03d d"
    by simp
  ultimately show ?thesis
    using same by blast
qed

lemma sample_call:
  "generate_quest_badge mono_env [] ''Zo Zo'' ''ZO ZO ZO'' ''Photo'' ''ZO O Zo Z''
     (QStr ''abc-123-def'') 111 None = (Inr (Some sample_badge), [])"
  by code_simp

lemma sample_call2:
  "generate_quest_badge mono_env [sample_png] ''Meet Samurai''
     ''Take a selfie with samurai at Zo House.'' ''Photo'' ''2025-05-04''
     (QStr ''abc-123-def'') 9 (Some 0) = (Inr (Some sample_badge2), sample_store2)"
  by code_simp

lemma sample_call3:
  "generate_quest_badge mono_env [sample_png] ''Incomprehensibilities Quest Now''
     ''a b c d e f g h i j k l'' ''Go Supercalifragilisticexpialidocious now'' ''2025-05-04''
     (QStr ''1234'') 420 (Some 0) = (Inr (Some sample_badge3), sample_store2)"
  by code_simp

text \<open>
  The claim as stated, for any two calls, fails across processes: the same call with the
  same hyphenated \<open>quest_id\<close> draws 344 with one string hash and 345 with another.
\<close>

theorem display_id_deterministic_counterexample:
  "map_option (t_str \<circ> id_tag)
     (badge_of (generate_quest_badge mono_env [] ''Zo Zo'' ''ZO ZO ZO'' ''Photo'' ''ZO O Zo Z''
                  (QStr ''abc-123-def'') 111 None)) = Some ''Quest ID: 344'' \<and>
   map_option (t_str \<circ> id_tag)
     (badge_of (generate_quest_badge resalted_env [] ''Zo Zo'' ''ZO ZO ZO'' ''Photo'' ''ZO O Zo Z''
                  (QStr ''abc-123-def'') 111 None)) = Some ''Quest ID: 345''"
  by code_simp

theorem display_id_deterministic_witness:
  "generate_quest_badge mono_env [] ''Zo Zo'' ''ZO ZO ZO'' ''Photo'' ''ZO O Zo Z''
     (QStr ''abc-123-def'') 111 None = (Inr (Some sample_badge), []) \<and>
   generate_quest_badge mono_env [sample_png] ''Meet Samurai''
     ''Take a selfie with samurai at Zo House.'' ''Photo'' ''2025-05-04''
     (QStr ''abc-123-def'') 9 (Some 0) = (Inr (Some sample_badge2), sample_store2) \<and>
   hash mono_env = hash mono_env \<and>
   t_str (id_tag sample_badge) = t_str (id_tag sample_badge2) \<and>
   id_tag sample_badge = id_tag sample_badge2 \<and>
   (\<exists>d. display_id (hash mono_env) (QStr ''abc-123-def'') = Inr d \<and>
        t_str (id_tag sample_badge) = ''Quest ID: '' @ fmt_03d d)"
  using display_id_deterministic [OF sample_call sample_call2 disjI1 [OF refl]]
    sample_call sample_call2
  by blast

subsection \<open>The description\<close>

text \<open>
  C4. A description of more than 10 words is cut to its first 10 words joined by single
  spaces and followed by three dots; one of 10 words or fewer is passed on as it is. That
  text is handed to \<open>textwrap.wrap\<close> with width 28, with no pixel measurement; the lines it
  returns are drawn in the body font at x = 40, the first at the y where the title block
  ended, each next one 35 below, and the cursor after the last one fixes the y of the
  action row.
\<close>

theorem description_layout:
  assumes "generate_quest_badge E h title description action deadline q points ic
             = (Inr (Some b), h')"
  shows "\<exists>desc_y lines.
           lines = wrap E (if 10 < length (py_split description)
                           then join_sp (take 10 (py_split description)) @ ''...''
                           else description) 28 \<and>
           desc_lines b =
             map (\<lambda>(i, l). Text 40 (desc_y + of_nat i * 35) l (Font ''fonts/Montserrat-Medium.ttf'' 26))
               (zip [0..<length lines] lines) \<and>
           t_y (action_label b) = max (desc_y + of_nat (length lines) * 35 + 40) (height - 180)"
proof -
  from assms obtain desc_y desc_y' where
    d: "layout_description E (Font ''fonts/Montserrat-Medium.ttf'' 26) desc_y description
          = Inr (desc_lines b, desc_y')" and
    a: "action_label b = Text 40 (max (desc_y' + 40) (height - 180)) ''Action:''
                           (Font ''fonts/Montserrat-Bold.ttf'' 32)"
    by (rule generate_layoutE)
  define lines where "lines = wrap E (truncate_description description) 28"
  from draw_lines_result [OF d [unfolded layout_description_def]]
  have l: "desc_lines b =
             map (\<lambda>(i, l). Text 40 (desc_y + of_nat i * 35) l (Font ''fonts/Montserrat-Medium.ttf'' 26))
               (zip [0..<length lines] lines)"
    and y: "desc_y' = desc_y + of_nat (length lines) * 35"
    by (simp_all add: lines_def)
  have t: "lines = wrap E (if 10 < length (py_split description)
                           then join_sp (take 10 (py_split description)) @ ''...''
                           else description) 28"
    by (simp add: lines_def truncate_description_def Let_def)
  have "t_y (action_label b) = max (desc_y + of_nat (length lines) * 35 + 40) (height - 180)"
    by (simp add: a y)
  with t l show ?thesis by blast
qed

theorem description_layout_witness:
  "generate_quest_badge mono_env [sample_png] ''Meet Samurai''
     ''Take a selfie with samurai at Zo House.'' ''Photo'' ''2025-05-04''
     (QStr ''abc-123-def'') 9 (Some 0) = (Inr (Some sample_badge2), sample_store2) \<and>
   (\<exists>desc_y lines.
      lines = wrap mono_env
                (if 10 < length (py_split ''Take a selfie with samurai at Zo House.'')
                 then join_sp (take 10 (py_split ''Take a selfie with samurai at Zo House.'')) @ ''...''
                 else ''Take a selfie with samurai at Zo House.'') 28 \<and>
      desc_lines sample_badge2 =
        map (\<lambda>(i, l). Text 40 (desc_y + of_nat i * 35) l (Font ''fonts/Montserrat-Medium.ttf'' 26))
          (zip [0..<length lines] lines) \<and>
      t_y (action_label sample_badge2) = max (desc_y + of_nat (length lines) * 35 + 40) (height - 180))"
  using description_layout [OF sample_call2] sample_call2 by blast

subsection \<open>The points pill\<close>

lemma str_int_digits: "0 \<le> p \<Longrightarrow> set (str_int p) \<subseteq> set ''0123456789''"
  using str_nat_digits [of "nat p"] by (simp add: str_int_def)

lemma generate_pill:
  assumes "generate_quest_badge E h title description action deadline q points ic
             = (Inr (Some b), h')"
  shows "\<exists>pw. textlength E (Font ''fonts/Montserrat-Bold.ttf'' 80) (str_int points) = Inr pw \<and>
              pill b = Pill (width - (pw + 80) - 60) (height - 70 - 50) (pw + 80) 70 (str_int points)"
  using assms by (rule generate_layoutE) blast

text \<open>
  C5 (as amended). The pill is as wide as the measured width of \<open>str(points)\<close> in the points
  font (Montserrat-Bold at 80) plus 80, and 70 high. Its width grows strictly with the digit
  count of non-negative points when every digit string measures a fixed positive advance
  per digit in that font; nothing is promised for a font whose digits differ in width.
\<close>

theorem pill_width:
  "(generate_quest_badge E h title description action deadline q points ic = (Inr (Some b), h')
      \<longrightarrow> (\<exists>pw. textlength E (Font ''fonts/Montserrat-Bold.ttf'' 80) (str_int points) = Inr pw \<and>
                pill_w (pill b) = pw + 80 \<and> pill_h (pill b) = 70 \<and>
                pill_text (pill b) = str_int points)) \<and>
   (generate_quest_badge E h1 title1 description1 action1 deadline1 q1 points1 ic1
      = (Inr (Some b1), h1') \<and>
    generate_quest_badge E h2 title2 description2 action2 deadline2 q2 points2 ic2
      = (Inr (Some b2), h2') \<and>
    0 \<le> points1 \<and> 0 \<le> points2 \<and> 0 < c \<and>
    (\<forall>s. set s \<subseteq> set ''0123456789'' \<longrightarrow>
         textlength E (Font ''fonts/Montserrat-Bold.ttf'' 80) s = Inr (c * of_nat (length s))) \<and>
    length (str_int points1) < length (str_int points2)
      \<longrightarrow> pill_w (pill b1) < pill_w (pill b2))"
proof (intro conjI impI)
  assume "generate_quest_badge E h title description action deadline q points ic
            = (Inr (Some b), h')"
  from generate_pill [OF this]
  show "\<exists>pw. textlength E (Font ''fonts/Montserrat-Bold.ttf'' 80) (str_int points) = Inr pw \<and>
             pill_w (pill b) = pw + 80 \<and> pill_h (pill b) = 70 \<and>
             pill_text (pill b) = str_int points"
    by auto
next
  assume a: "generate_quest_badge E h1 title1 description1 action1 deadline1 q1 points1 ic1
      = (Inr (Some b1), h1') \<and>
    generate_quest_badge E h2 title2 description2 action2 deadline2 q2 points2 ic2
      = (Inr (Some b2), h2') \<and>
    0 \<le> points1 \<and> 0 \<le> points2 \<and> 0 < c \<and>
    (\<forall>s. set s \<subseteq> set ''0123456789'' \<longrightarrow>
         textlength E (Font ''fonts/Montserrat-Bold.ttf'' 80) s = Inr (c * of_nat (length s))) \<and>
    length (str_int points1) < length (str_int points2)"
  then have m1: "textlength E (Font ''fonts/Montserrat-Bold.ttf'' 80) (str_int points1)
                   = Inr (c * of_nat (length (str_int points1)))"
    and m2: "textlength E (Font ''fonts/Montserrat-Bold.ttf'' 80) (str_int points2)
                   = Inr (c * of_nat (length (str_int points2)))"
    using str_int_digits [of points1] str_int_digits [of points2] by blast+
  from a generate_pill [of E h1 title1 description1 action1 deadline1 q1 points1 ic1 b1 h1'] m1
  have w1: "pill_w (pill b1) = c * of_nat (length (str_int points1)) + 80" by auto
  from a generate_pill [of E h2 title2 description2 action2 deadline2 q2 points2 ic2 b2 h2'] m2
  have w2: "pill_w (pill b2) = c * of_nat (length (str_int points2)) + 80" by auto
  from a have "c * of_nat (length (str_int points1)) < c * of_nat (length (str_int points2))"
    by simp
  then show "pill_w (pill b1) < pill_w (pill b2)"
    by (simp add: w1 w2)
qed

text \<open>
  The claim as stated fails in a font whose digit one is narrower than the other digits:
  99 points give a pill 176 wide, 111 points one 152 wide.
\<close>

theorem pill_width_counterexample:
  "map_option (pill_w \<circ> pill)
     (badge_of (generate_quest_badge prop_env [] ''Zo Zo'' ''ZO ZO ZO'' ''Photo'' ''ZO O Zo Z''
                  (QInt 209) 99 None)) = Some 176 \<and>
   map_option (pill_w \<circ> pill)
     (badge_of (generate_quest_badge prop_env [] ''Zo Zo'' ''ZO ZO ZO'' ''Photo'' ''ZO O Zo Z''
                  (QInt 209) 111 None)) = Some 152 \<and>
   length (str_int 99) < length (str_int 111) \<and>
   \<not> (176 :: rat) < 152"
  by code_simp

lemma mono_env_digits:
  "textlength mono_env (Font ''fonts/Montserrat-Bold.ttf'' 80) s
     = (if CHR 0x0A \<in> set s then Inl ValueError else Inr (40 * of_nat (length s)))"
proof -
  have "sum_list (map (\<lambda>c. 1 / 2) s) = (of_nat (length s) / 2 :: rat)"
    by (induction s) (simp_all add: field_simps)
  then show ?thesis
    by (simp add: mono_env_def glyph_env_def text_width_def)
qed

theorem pill_width_witness:
  "generate_quest_badge mono_env [sample_png] ''Meet Samurai''
     ''Take a selfie with samurai at Zo House.'' ''Photo'' ''2025-05-04''
     (QStr ''abc-123-def'') 9 (Some 0) = (Inr (Some sample_badge2), sample_store2) \<and>
   generate_quest_badge mono_env [] ''Zo Zo'' ''ZO ZO ZO'' ''Photo'' ''ZO O Zo Z''
     (QStr ''abc-123-def'') 111 None = (Inr (Some sample_badge), []) \<and>
   length (str_int 9) < length (str_int 111) \<and>
   pill_w (pill sample_badge2) = 120 \<and>
   pill_w (pill sample_badge2) < pill_w (pill sample_badge)"
proof -
  have d: "\<forall>s. set s \<subseteq> set ''0123456789'' \<longrightarrow>
             textlength mono_env (Font ''fonts/Montserrat-Bold.ttf'' 80) s
               = Inr (40 * of_nat (length s))"
    by (auto simp: mono_env_digits)
  have l: "length (str_int 9) < length (str_int 111)"
    by code_simp
  have p: "(0::int) \<le> 9" "(0::int) \<le> 111" "(0::rat) < 40"
    by simp_all
  note t = pill_width [where E = mono_env and c = 40
      and ?h1.0 = "[sample_png]" and ?title1.0 = "''Meet Samurai''"
      and ?description1.0 = "''Take a selfie with samurai at Zo House.''"
      and ?action1.0 = "''Photo''" and ?deadline1.0 = "''2025-05-04''"
      and ?q1.0 = "QStr ''abc-123-def''" and ?points1.0 = 9 and ?ic1.0 = "Some 0"
      and ?b1.0 = sample_badge2 and ?h1' = sample_store2
      and ?h2.0 = "[]" and ?title2.0 = "''Zo Zo''" and ?description2.0 = "''ZO ZO ZO''"
      and ?action2.0 = "''Photo''" and ?deadline2.0 = "''ZO O Zo Z''"
      and ?q2.0 = "QStr ''abc-123-def''" and ?points2.0 = 111 and ?ic2.0 = None
      and ?b2.0 = sample_badge and ?h2' = "[]"]
  from t sample_call sample_call2 d l p
  have "pill_w (pill sample_badge2) < pill_w (pill sample_badge)"
    by blast
  moreover have "pill_w (pill sample_badge2) = 120"
    by (simp add: sample_badge2_def)
  ultimately show ?thesis
    using sample_call sample_call2 l by blast
qed

subsection \<open>The action and the deadline row\<close>

lemma layout_action_result:
  assumes "layout_action E bf action action_x info_y off mx = Inr (ts, deadline_y)"
  shows "\<exists>len. textlength E bf action = Inr len \<and>
           (if mx < len
            then \<exists>lines. action_wrap (textlength E bf) mx [] [] (py_split action) = Inr lines \<and>
                   ts = map (\<lambda>(i, l). Text action_x
                                        (info_y + off + of_nat i * (of_nat (fsize bf) * (4 / 5))) l bf)
                          (zip [0..<length lines] lines) \<and>
                   deadline_y = info_y + off + of_nat (length lines) * (of_nat (fsize bf) * (4 / 5)) + 10
            else ts = [Text action_x (info_y + off) action bf] \<and> deadline_y = info_y + 40)"
proof -
  from assms obtain len where len: "textlength E bf action = Inr len"
    unfolding layout_action_def by (auto simp: exn_bind_eq_Inr)
  show ?thesis
  proof (cases "mx < len")
    case True
    with assms len obtain lines y where
      w: "action_wrap (textlength E bf) mx [] [] (py_split action) = Inr lines" and
      d: "draw_lines E bf action_x (info_y + off) (of_nat (fsize bf) * (4 / 5)) lines = Inr (ts, y)" and
      y: "deadline_y = y + 10"
      unfolding layout_action_def by (auto simp: exn_bind_eq_Inr)
    from draw_lines_result [OF d] w y len True show ?thesis
      by simp
  next
    case False
    with assms len obtain t where
      "draw_at E action_x (info_y + off) action bf = Inr t" "ts = [t]" "deadline_y = info_y + 40"
      unfolding layout_action_def by (auto simp: exn_bind_eq_Inr)
    with len False show ?thesis
      by (auto dest: draw_at_eq_Inr)
  qed
qed

text \<open>
  C7 (as amended). When the action is wider than the room left of the pill, its lines are
  drawn from the row's start at a pitch of 0.8 of the body font size, and the deadline row
  is 10 below the cursor after the last line. When the action fits, it is drawn on one
  line and the deadline row is at the y of the \<open>Action:\<close> label plus 40, a fixed offset
  that does not depend on where the action text was drawn.
\<close>

theorem deadline_position:
  assumes "generate_quest_badge E h title description action deadline q points ic
             = (Inr (Some b), h')"
  shows "\<exists>info_y action_width off pw len.
           action_label b = Text 40 info_y ''Action:'' (Font ''fonts/Montserrat-Bold.ttf'' 32) \<and>
           textlength E (Font ''fonts/Montserrat-Bold.ttf'' 32) ''Action:'' = Inr action_width \<and>
           y_offset E loaded_fonts ''Action:'' action = Inr off \<and>
           textlength E (Font ''fonts/Montserrat-Bold.ttf'' 80) (str_int points) = Inr pw \<and>
           textlength E (Font ''fonts/Montserrat-Medium.ttf'' 26) action = Inr len \<and>
           (if width - (pw + 80) - 60 - (40 + action_width + 25) - 30 < len
            then \<exists>lines.
                   action_wrap (textlength E (Font ''fonts/Montserrat-Medium.ttf'' 26))
                     (width - (pw + 80) - 60 - (40 + action_width + 25) - 30) [] []
                     (py_split action) = Inr lines \<and>
                   action_lines b =
                     map (\<lambda>(i, l). Text (40 + action_width + 25)
                                     (info_y + off + of_nat i * (26 * (4 / 5))) l
                                     (Font ''fonts/Montserrat-Medium.ttf'' 26))
                       (zip [0..<length lines] lines) \<and>
                   t_y (deadline_label b) = info_y + off + of_nat (length lines) * (26 * (4 / 5)) + 10
            else action_lines b = [Text (40 + action_width + 25) (info_y + off) action
                                     (Font ''fonts/Montserrat-Medium.ttf'' 26)] \<and>
                 t_y (deadline_label b) = info_y + 40)"
proof -
  from assms obtain desc_y' action_width off pw deadline_y where
    a: "action_label b = Text 40 (max (desc_y' + 40) (height - 180)) ''Action:''
                        (Font ''fonts/Montserrat-Bold.ttf'' 32)" and
    w: "textlength E (Font ''fonts/Montserrat-Bold.ttf'' 32) ''Action:'' = Inr action_width" and
    o: "y_offset E loaded_fonts ''Action:'' action = Inr off" and
    p: "textlength E (Font ''fonts/Montserrat-Bold.ttf'' 80) (str_int points) = Inr pw" and
    l: "layout_action E (Font ''fonts/Montserrat-Medium.ttf'' 26) action (40 + action_width + 25)
       (max (desc_y' + 40) (height - 180)) off
       (width - (pw + 80) - 60 - (40 + action_width + 25) - 30)
     = Inr (action_lines b, deadline_y)" and
    d: "deadline_label b = Text 40 deadline_y ''Deadline:'' (Font ''fonts/Montserrat-Bold.ttf'' 32)"
    by (rule generate_layoutE)
  from layout_action_result [OF l] obtain len where
    len: "textlength E (Font ''fonts/Montserrat-Medium.ttf'' 26) action = Inr len" and
    r: "if width - (pw + 80) - 60 - (40 + action_width + 25) - 30 < len
        then \<exists>lines.
               action_wrap (textlength E (Font ''fonts/Montserrat-Medium.ttf'' 26))
                 (width - (pw + 80) - 60 - (40 + action_width + 25) - 30) [] []
                 (py_split action) = Inr lines \<and>
               action_lines b =
                 map (\<lambda>(i, l). Text (40 + action_width + 25)
                                 (max (desc_y' + 40) (height - 180) + off + of_nat i * (of_nat (fsize (Font ''fonts/Montserrat-Medium.ttf'' 26)) * (4 / 5))) l
                                 (Font ''fonts/Montserrat-Medium.ttf'' 26))
                   (zip [0..<length lines] lines) \<and>
               deadline_y = max (desc_y' + 40) (height - 180) + off
                              + of_nat (length lines) * (of_nat (fsize (Font ''fonts/Montserrat-Medium.ttf'' 26)) * (4 / 5)) + 10
        else action_lines b = [Text (40 + action_width + 25) (max (desc_y' + 40) (height - 180) + off)
                                 action (Font ''fonts/Montserrat-Medium.ttf'' 26)] \<and>
             deadline_y = max (desc_y' + 40) (height - 180) + 40"
    by blast
  have dy: "t_y (deadline_label b) = deadline_y" by (simp add: d)
  show ?thesis
    apply (rule exI [of _ "max (desc_y' + 40) (height - 180)"])
    apply (rule exI [of _ action_width])
    apply (rule exI [of _ off])
    apply (rule exI [of _ pw])
    apply (rule exI [of _ len])
    using a w o p len r unfolding dy by (simp split: if_splits)
qed

text \<open>
  The claim as stated fails for an action that fits on one line: the action is drawn at
  y = 322.25 and the deadline row at y = 360, which is neither 10 below the line's y nor
  10 below the cursor one line pitch (20.8) further down.
\<close>

theorem deadline_position_counterexample:
  "map_option (map t_y \<circ> action_lines)
     (badge_of (generate_quest_badge mono_env [] ''Zo Zo'' ''ZO ZO ZO'' ''Photo'' ''ZO O Zo Z''
                  (QInt 209) 111 None)) = Some [1289 / 4] \<and>
   map_option (t_y \<circ> deadline_label)
     (badge_of (generate_quest_badge mono_env [] ''Zo Zo'' ''ZO ZO ZO'' ''Photo'' ''ZO O Zo Z''
                  (QInt 209) 111 None)) = Some 360 \<and>
   (360 :: rat) \<noteq> 1289 / 4 + 10 \<and>
   (360 :: rat) \<noteq> 1289 / 4 + 26 * (4 / 5) + 10"
  by code_simp

theorem deadline_position_witness:
  "generate_quest_badge mono_env [sample_png] ''Incomprehensibilities Quest Now''
     ''a b c d e f g h i j k l'' ''Go Supercalifragilisticexpialidocious now'' ''2025-05-04''
     (QStr ''1234'') 420 (Some 0) = (Inr (Some sample_badge3), sample_store2) \<and>
   (\<exists>info_y action_width off pw len.
      action_label sample_badge3 = Text 40 info_y ''Action:'' (Font ''fonts/Montserrat-Bold.ttf'' 32) \<and>
      textlength mono_env (Font ''fonts/Montserrat-Bold.ttf'' 32) ''Action:'' = Inr action_width \<and>
      y_offset mono_env loaded_fonts ''Action:'' ''Go Supercalifragilisticexpialidocious now'' = Inr off \<and>
      textlength mono_env (Font ''fonts/Montserrat-Bold.ttf'' 80) (str_int 420) = Inr pw \<and>
      textlength mono_env (Font ''fonts/Montserrat-Medium.ttf'' 26)
        ''Go Supercalifragilisticexpialidocious now'' = Inr len \<and>
      (if width - (pw + 80) - 60 - (40 + action_width + 25) - 30 < len
       then \<exists>lines.
              action_wrap (textlength mono_env (Font ''fonts/Montserrat-Medium.ttf'' 26))
                (width - (pw + 80) - 60 - (40 + action_width + 25) - 30) [] []
                (py_split ''Go Supercalifragilisticexpialidocious now'') = Inr lines \<and>
              action_lines sample_badge3 =
                map (\<lambda>(i, l). Text (40 + action_width + 25)
                                (info_y + off + of_nat i * (26 * (4 / 5))) l
                                (Font ''fonts/Montserrat-Medium.ttf'' 26))
                  (zip [0..<length lines] lines) \<and>
              t_y (deadline_label sample_badge3)
                = info_y + off + of_nat (length lines) * (26 * (4 / 5)) + 10
       else action_lines sample_badge3 =
              [Text (40 + action_width + 25) (info_y + off)
                 ''Go Supercalifragilisticexpialidocious now'' (Font ''fonts/Montserrat-Medium.ttf'' 26)] \<and>
            t_y (deadline_label sample_badge3) = info_y + 40))"
  using deadline_position [OF sample_call3] sample_call3 by blast

subsection \<open>The title\<close>

lemma join_sp_snoc: "g \<noteq> [] \<Longrightarrow> join_sp (g @ [w]) = join_sp g @ '' '' @ w"
  by (induction g rule: join_sp.induct) simp_all

lemma title_wrap_groups:
  assumes "title_wrap m mx lines (join_sp g) ws = Inr out" "g \<noteq> []"
    "2 \<le> length g \<longrightarrow> (\<exists>l. m (join_sp g) = Inr l \<and> l \<le> mx)"
  shows "\<exists>groups. out = lines @ map join_sp groups \<and> concat groups = g @ ws \<and>
           [] \<notin> set groups \<and> groups \<noteq> [] \<and> (\<exists>r. hd groups = g @ r) \<and>
           (\<forall>gr\<in>set groups. 2 \<le> length gr \<longrightarrow> (\<exists>l. m (join_sp gr) = Inr l \<and> l \<le> mx)) \<and>
           (\<forall>i. Suc i < length groups \<longrightarrow>
                (\<exists>l. m (join_sp (groups ! i @ [hd (groups ! Suc i)])) = Inr l \<and> mx < l))"
  using assms
proof (induction ws arbitrary: lines g)
  case Nil
  then show ?case
    by (intro exI [of _ "[g]"]) simp
next
  case (Cons w ws)
  from Cons.prems(1) obtain len where
    len: "m (join_sp g @ '' '' @ w) = Inr len" and
    rec: "if len \<le> mx then title_wrap m mx lines (join_sp g @ '' '' @ w) ws = Inr out
          else title_wrap m mx (lines @ [join_sp g]) w ws = Inr out"
    by (auto simp: exn_bind_eq_Inr split: if_splits)
  have snoc: "join_sp (g @ [w]) = join_sp g @ '' '' @ w"
    by (rule join_sp_snoc [OF Cons.prems(2)])
  show ?case
  proof (cases "len \<le> mx")
    case True
    with rec have "title_wrap m mx lines (join_sp (g @ [w])) ws = Inr out"
      by (simp add: snoc)
    from Cons.IH [OF this] len True obtain groups where
      g: "out = lines @ map join_sp groups" "concat groups = (g @ [w]) @ ws"
        "[] \<notin> set groups" "groups \<noteq> []" "\<exists>r. hd groups = (g @ [w]) @ r"
        "\<forall>gr\<in>set groups. 2 \<le> length gr \<longrightarrow> (\<exists>l. m (join_sp gr) = Inr l \<and> l \<le> mx)"
        "\<forall>i. Suc i < length groups \<longrightarrow>
             (\<exists>l. m (join_sp (groups ! i @ [hd (groups ! Suc i)])) = Inr l \<and> mx < l)"
      by (auto simp: snoc)
    show ?thesis
      by (rule exI [of _ groups]) (use g in auto)
  next
    case False
    with rec have "title_wrap m mx (lines @ [join_sp g]) (join_sp [w]) ws = Inr out"
      by simp
    from Cons.IH [OF this] obtain groups where
      g: "out = (lines @ [join_sp g]) @ map join_sp groups" "concat groups = [w] @ ws"
        "[] \<notin> set groups" "groups \<noteq> []" "\<exists>r. hd groups = [w] @ r"
        "\<forall>gr\<in>set groups. 2 \<le> length gr \<longrightarrow> (\<exists>l. m (join_sp gr) = Inr l \<and> l \<le> mx)"
        "\<forall>i. Suc i < length groups \<longrightarrow>
             (\<exists>l. m (join_sp (groups ! i @ [hd (groups ! Suc i)])) = Inr l \<and> mx < l)"
      by auto
    from g(4,5) have hd0: "hd (groups ! 0) = w"
      by (cases groups) auto
    have greedy: "\<exists>l. m (join_sp ((g # groups) ! i @ [hd ((g # groups) ! Suc i)])) = Inr l \<and> mx < l"
      if "Suc i < length (g # groups)" for i
    proof (cases i)
      case 0
      with len False hd0 show ?thesis by (simp add: snoc)
    next
      case (Suc j)
      with that g(7) show ?thesis by simp
    qed
    show ?thesis
      by (rule exI [of _ "g # groups"]) (use g Cons.prems(2,3) greedy in auto)
  qed
qed

lemma layout_title_result:
  assumes "layout_title E tf title = Inr (ts, desc_y)"
  shows "\<exists>len. textlength E tf (join_sp (take 3 (py_split title))) = Inr len \<and>
           (if width - 300 < len
            then \<exists>groups.
                   concat groups = take 3 (py_split title) \<and> [] \<notin> set groups \<and>
                   (\<forall>gr\<in>set groups. 2 \<le> length gr \<longrightarrow>
                        (\<exists>l. textlength E tf (join_sp gr) = Inr l \<and> l \<le> width - 300)) \<and>
                   (\<forall>i. Suc i < length groups \<longrightarrow>
                        (\<exists>l. textlength E tf (join_sp (groups ! i @ [hd (groups ! Suc i)])) = Inr l \<and>
                             width - 300 < l)) \<and>
                   ts = map (\<lambda>(i, l). Text 40 (160 + of_nat i * (of_nat (fsize tf) - 5)) l tf)
                          (zip [0..<length (take 2 groups)] (map join_sp (take 2 groups)))
            else ts = [Text 40 160 (join_sp (take 3 (py_split title))) tf])"
proof -
  from assms obtain len where len: "textlength E tf (join_sp (take 3 (py_split title))) = Inr len"
    unfolding layout_title_def Let_def by (auto simp: exn_bind_eq_Inr)
  show ?thesis
  proof (cases "width - 300 < len")
    case True
    with assms len obtain w ws lines y where
      ws: "take 3 (py_split title) = w # ws" and
      tw: "title_wrap (textlength E tf) (width - 300) [] w ws = Inr lines" and
      dl: "draw_lines E tf 40 160 (of_nat (fsize tf) - 5) (take 2 lines) = Inr (ts, y)"
      unfolding layout_title_def Let_def
      by (auto simp: exn_bind_eq_Inr split: list.splits)
    from tw have "title_wrap (textlength E tf) (width - 300) [] (join_sp [w]) ws = Inr lines"
      by simp
    from title_wrap_groups [OF this] obtain groups where
      g: "lines = map join_sp groups" "concat groups = w # ws" "[] \<notin> set groups"
        "\<forall>gr\<in>set groups. 2 \<le> length gr \<longrightarrow>
           (\<exists>l. textlength E tf (join_sp gr) = Inr l \<and> l \<le> width - 300)"
        "\<forall>i. Suc i < length groups \<longrightarrow>
           (\<exists>l. textlength E tf (join_sp (groups ! i @ [hd (groups ! Suc i)])) = Inr l \<and>
                width - 300 < l)"
      by auto
    from draw_lines_result [OF dl]
    have "ts = map (\<lambda>(i, l). Text 40 (160 + of_nat i * (of_nat (fsize tf) - 5)) l tf)
                 (zip [0..<length (take 2 groups)] (map join_sp (take 2 groups)))"
      by (simp add: g(1) take_map)
    with g ws len True show ?thesis
      by auto
  next
    case False
    with assms len obtain t where
      "draw_at E 40 160 (join_sp (take 3 (py_split title))) tf = Inr t" "ts = [t]"
      unfolding layout_title_def Let_def by (auto simp: exn_bind_eq_Inr)
    with len False show ?thesis
      by (auto dest: draw_at_eq_Inr)
  qed
qed

text \<open>
  C3 (as amended). Only the first 3 whitespace-separated words of the title are laid out.
  When their joined text measures at most \<open>width - 300\<close> it is drawn on one line. Otherwise
  the words are grouped greedily into lines, in order and without loss: a line of two or
  more words fits the limit, and a line ends only where adding the next word would exceed
  it; a line of a single word is kept whatever its width. Only the first 2 lines are
  drawn, at x = 40 and y = 160 and 205 (a pitch of the font size 50 minus 5); a third line
  is dropped.
\<close>

theorem title_layout:
  assumes "generate_quest_badge E h title description action deadline q points ic
             = (Inr (Some b), h')"
  shows "length (title_lines b) \<le> 2 \<and>
         (\<exists>len. textlength E (Font ''fonts/Montserrat-Bold.ttf'' 50)
                  (join_sp (take 3 (py_split title))) = Inr len \<and>
           (if width - 300 < len
            then \<exists>groups.
                   concat groups = take 3 (py_split title) \<and> [] \<notin> set groups \<and>
                   (\<forall>gr\<in>set groups. 2 \<le> length gr \<longrightarrow>
                        (\<exists>l. textlength E (Font ''fonts/Montserrat-Bold.ttf'' 50) (join_sp gr) = Inr l \<and>
                             l \<le> width - 300)) \<and>
                   (\<forall>i. Suc i < length groups \<longrightarrow>
                        (\<exists>l. textlength E (Font ''fonts/Montserrat-Bold.ttf'' 50)
                               (join_sp (groups ! i @ [hd (groups ! Suc i)])) = Inr l \<and>
                             width - 300 < l)) \<and>
                   title_lines b =
                     map (\<lambda>(i, l). Text 40 (160 + of_nat i * (50 - 5)) l
                                     (Font ''fonts/Montserrat-Bold.ttf'' 50))
                       (zip [0..<length (take 2 groups)] (map join_sp (take 2 groups)))
            else title_lines b = [Text 40 160 (join_sp (take 3 (py_split title)))
                                    (Font ''fonts/Montserrat-Bold.ttf'' 50)]))"
proof -
  from assms obtain desc_y where
    "layout_title E (Font ''fonts/Montserrat-Bold.ttf'' 50) title = Inr (title_lines b, desc_y)"
    by (rule generate_layoutE)
  from layout_title_result [OF this] obtain len where
    len: "textlength E (Font ''fonts/Montserrat-Bold.ttf'' 50)
            (join_sp (take 3 (py_split title))) = Inr len" and
    r: "if width - 300 < len
        then \<exists>groups.
               concat groups = take 3 (py_split title) \<and> [] \<notin> set groups \<and>
               (\<forall>gr\<in>set groups. 2 \<le> length gr \<longrightarrow>
                    (\<exists>l. textlength E (Font ''fonts/Montserrat-Bold.ttf'' 50) (join_sp gr) = Inr l \<and>
                         l \<le> width - 300)) \<and>
               (\<forall>i. Suc i < length groups \<longrightarrow>
                    (\<exists>l. textlength E (Font ''fonts/Montserrat-Bold.ttf'' 50)
                           (join_sp (groups ! i @ [hd (groups ! Suc i)])) = Inr l \<and>
                         width - 300 < l)) \<and>
               title_lines b =
                 map (\<lambda>(i, l). Text 40 (160 + of_nat i * (of_nat (fsize (Font ''fonts/Montserrat-Bold.ttf'' 50)) - 5)) l
                                 (Font ''fonts/Montserrat-Bold.ttf'' 50))
                   (zip [0..<length (take 2 groups)] (map join_sp (take 2 groups)))
        else title_lines b = [Text 40 160 (join_sp (take 3 (py_split title)))
                                (Font ''fonts/Montserrat-Bold.ttf'' 50)]"
    by blast
  have n: "length (title_lines b) \<le> 2"
    using r by (auto split: if_splits)
  show ?thesis
    apply (rule conjI [OF n])
    apply (rule exI [of _ len])
    using len r by (simp split: if_splits)
qed

text \<open>
  The claim as stated fails for a title whose first word alone is wider than the limit:
  the word is drawn on a line of its own, 525 wide against a limit of 500.
\<close>

theorem title_layout_counterexample:
  "map_option (map t_str \<circ> title_lines)
     (badge_of (generate_quest_badge mono_env [] ''Incomprehensibilities Quest Now'' ''ZO ZO ZO''
                  ''Photo'' ''ZO O Zo Z'' (QInt 209) 111 None))
     = Some [''Incomprehensibilities'', ''Quest Now''] \<and>
   textlength mono_env (Font ''fonts/Montserrat-Bold.ttf'' 50) ''Incomprehensibilities'' = Inr 525 \<and>
   \<not> (525 \<le> width - 300)"
  by code_simp

theorem title_layout_witness:
  "generate_quest_badge mono_env [sample_png] ''Incomprehensibilities Quest Now''
     ''a b c d e f g h i j k l'' ''Go Supercalifragilisticexpialidocious now'' ''2025-05-04''
     (QStr ''1234'') 420 (Some 0) = (Inr (Some sample_badge3), sample_store2) \<and>
   length (title_lines sample_badge3) \<le> 2 \<and>
   (\<exists>len. textlength mono_env (Font ''fonts/Montserrat-Bold.ttf'' 50)
            (join_sp (take 3 (py_split ''Incomprehensibilities Quest Now''))) = Inr len \<and>
     (if width - 300 < len
      then \<exists>groups.
             concat groups = take 3 (py_split ''Incomprehensibilities Quest Now'') \<and>
             [] \<notin> set groups \<and>
             (\<forall>gr\<in>set groups. 2 \<le> length gr \<longrightarrow>
                  (\<exists>l. textlength mono_env (Font ''fonts/Montserrat-Bold.ttf'' 50) (join_sp gr) = Inr l \<and>
                       l \<le> width - 300)) \<and>
             (\<forall>i. Suc i < length groups \<longrightarrow>
                  (\<exists>l. textlength mono_env (Font ''fonts/Montserrat-Bold.ttf'' 50)
                         (join_sp (groups ! i @ [hd (groups ! Suc i)])) = Inr l \<and>
                       width - 300 < l)) \<and>
             title_lines sample_badge3 =
               map (\<lambda>(i, l). Text 40 (160 + of_nat i * (50 - 5)) l
                               (Font ''fonts/Montserrat-Bold.ttf'' 50))
                 (zip [0..<length (take 2 groups)] (map join_sp (take 2 groups)))
      else title_lines sample_badge3 =
             [Text 40 160 (join_sp (take 3 (py_split ''Incomprehensibilities Quest Now'')))
                (Font ''fonts/Montserrat-Bold.ttf'' 50)]))"
  using title_layout [OF sample_call3] sample_call3 by blast

subsection \<open>Over-long words of the action\<close>

text \<open>
  C6. The claim says that every word of the action that alone exceeds the available width
  is drawn cut to 10 characters and three dots. The wrapping loop cuts a word only when the
  current line is empty, which holds for the first word alone: a later over-long word
  starts a new line and is drawn in full. Here the room left of the pill is
  540 - 177 - 30 = 333, the second word measures 442, and it is drawn unshortened; the same
  word in first position is cut, and the rest of the action is then not drawn at all.
\<close>

theorem action_long_word_not_truncated:
  "map_option (map t_str \<circ> action_lines)
     (badge_of (generate_quest_badge mono_env [] ''Meet Samurai''
                  ''Take a selfie with samurai at Zo House.''
                  ''Go Supercalifragilisticexpialidocious now'' ''2025-05-04'' (QInt 1) 420 None))
     = Some [''Go'', ''Supercalifragilisticexpialidocious'', ''now''] \<and>
   map_option (pill_x \<circ> pill)
     (badge_of (generate_quest_badge mono_env [] ''Meet Samurai''
                  ''Take a selfie with samurai at Zo House.''
                  ''Go Supercalifragilisticexpialidocious now'' ''2025-05-04'' (QInt 1) 420 None))
     = Some 540 \<and>
   map_option (map t_x \<circ> action_lines)
     (badge_of (generate_quest_badge mono_env [] ''Meet Samurai''
                  ''Take a selfie with samurai at Zo House.''
                  ''Go Supercalifragilisticexpialidocious now'' ''2025-05-04'' (QInt 1) 420 None))
     = Some [177, 177, 177] \<and>
   textlength mono_env (Font ''fonts/Montserrat-Medium.ttf'' 26)
     ''Supercalifragilisticexpialidocious'' = Inr 442 \<and>
   (540 - 177 - 30 :: rat) < 442 \<and>
   map_option (map t_str \<circ> action_lines)
     (badge_of (generate_quest_badge mono_env [] ''Meet Samurai''
                  ''Take a selfie with samurai at Zo House.''
                  ''Supercalifragilisticexpialidocious now go'' ''2025-05-04'' (QInt 1) 420 None))
     = Some [''Supercalif...'']"
  by code_simp

subsection \<open>The store across a call\<close>

lemma place_icon_frame:
  "place_icon E h bw bx by r = (ic, h') \<Longrightarrow> length h \<le> length h' \<and> take (length h) h' = h"
  unfolding place_icon_def Let_def
  by (auto simp: exn_bind_eq_Inr split: if_splits sum.splits option.splits prod.splits)

lemma generate_frame:
  assumes "generate_quest_badge E h title description action deadline q points ic = (res, h')"
  shows "length h \<le> length h' \<and> take (length h) h' = h"
proof -
  obtain d where d: "display_id (hash E) q = Inr d"
    using display_id_total by blast
  show ?thesis
  proof (cases ic)
    case None
    with assms show ?thesis
      unfolding generate_quest_badge_def d
      by (auto split: sum.splits option.splits)
  next
    case (Some r)
    with assms show ?thesis
      unfolding generate_quest_badge_def d
      by (auto split: sum.splits option.splits prod.splits dest: place_icon_frame)
  qed
qed

text \<open>
  C10. A call never changes an image object that existed before it: the store after the
  call is the store before it, followed by the objects the call created (the converted
  image and the copy that is resized). In particular the object passed as \<open>icon_image\<close>,
  which may be the one held in the icon cache, has the same mode, size and pixels after
  the call, whatever the call returns.
\<close>

theorem icon_argument_unchanged:
  assumes "generate_quest_badge E h title description action deadline q points ic = (res, h')"
  shows "length h \<le> length h' \<and> take (length h) h' = h \<and>
         (\<forall>r. ic = Some r \<and> r < length h \<longrightarrow> h' ! r = h ! r)"
proof -
  from generate_frame [OF assms] have l: "length h \<le> length h'" and t: "take (length h) h' = h"
    by simp_all
  have "h' ! r = h ! r" if "r < length h" for r
  proof -
    from that have "take (length h) h' ! r = h' ! r" by simp
    with t show ?thesis by simp
  qed
  with l t show ?thesis by blast
qed

theorem icon_argument_unchanged_witness:
  "generate_quest_badge mono_env [sample_png] ''Meet Samurai''
     ''Take a selfie with samurai at Zo House.'' ''Photo'' ''2025-05-04''
     (QStr ''abc-123-def'') 9 (Some 0) = (Inr (Some sample_badge2), sample_store2) \<and>
   0 < length [sample_png] \<and>
   sample_store2 ! 0 = [sample_png] ! 0 \<and>
   take (length [sample_png]) sample_store2 = [sample_png]"
proof -
  have "(0::nat) < length [sample_png]" by simp
  with icon_argument_unchanged [OF sample_call2] sample_call2 show ?thesis
    by blast
qed

subsection \<open>The icon cache\<close>

lemma known_default: "known_category ''default''"
  by (simp add: known_category_def ICON_CATEGORIES_def)

lemma effective_default [simp]: "effective_category ''default'' = ''default''"
  by (simp add: effective_category_def known_default)


lemma effective_unknown: "\<not> known_category c \<Longrightarrow> effective_category c = ''default''"
  by (simp add: effective_category_def)












end
